theory Spec2Isabelle
  imports Main "HOL-Library.Word" "HOL-Library.Sublist"
begin

section \<open>Data model of the ALSA output back end (output\_alsa.c)\<close>

text \<open>
  The C integer types of the source: \<open>unsigned\<close> is a 32-bit word.  \<open>long\<close> values
  (the volume tables, dB levels, the mixer range, return values of the library) are
  modelled as \<open>int\<close>.  The code compares table entries with \<open>left\<close>, subtracts them
  from each other, divides the mixer range by 100 and multiplies a level in whole dB by
  100; with the tables of this file and a range in hundredths of a dB none of these
  leaves the range of a 32-bit \<open>long\<close>, and the comparisons of a table entry with
  \<open>left\<close> give the same result whether \<open>long\<close> has 32 or 64 bits, since no operand
  is negative.
\<close>

type_synonym u32 = "32 word"

text \<open>Channel ids of \<open>snd_mixer_selem_get_playback_dB\<close>.\<close>

datatype mixer_channel = SND_MIXER_SCHN_FRONT_LEFT | SND_MIXER_SCHN_FRONT_RIGHT

text \<open>The sample formats of the preference list \<open>fmts\<close>, and the two access modes.\<close>

datatype pcm_format = S32_LE | S24_LE | S24_3LE | S16_LE

datatype pcm_access = SND_PCM_ACCESS_MMAP_INTERLEAVED | SND_PCM_ACCESS_RW_INTERLEAVED

text \<open>
  The calls into the ALSA library, named as in the source, with the arguments that the
  code chooses.  The PCM calls other than \<open>snd_pcm_open\<close> act on the handle \<open>pcmp\<close>,
  the mixer calls on \<open>alsa.mixer_handle\<close> and \<open>alsa.mixer_elem\<close>.
\<close>

datatype pcm_call =
    snd_pcm_open string
  | snd_pcm_close
  | snd_pcm_hw_params_any
  | snd_pcm_hw_params_set_rate_resample bool
  | snd_pcm_hw_params_set_rate u32
  | snd_pcm_hw_params_set_access pcm_access
  | snd_pcm_hw_params_set_format pcm_format
  | snd_pcm_hw_params_set_channels nat
  | snd_pcm_hw_params_set_periods_near u32
  | snd_pcm_hw_params_set_period_size_near nat
  | snd_pcm_hw_params_set_buffer_time_near u32
  | snd_pcm_hw_params_set_buffer_size_near nat
  | snd_pcm_hw_params_get_period_size
  | snd_pcm_hw_params_get_buffer_size
  | snd_pcm_hw_params
  | snd_pcm_dump
  | snd_pcm_state
  | snd_pcm_recover int
  | snd_pcm_avail_update
  | snd_pcm_start
  | snd_pcm_wait int
  | snd_pcm_delay
  | snd_pcm_mmap_begin nat
  | snd_pcm_mmap_commit nat
  | snd_pcm_writei nat

datatype mixer_call =
    snd_mixer_open
  | snd_mixer_attach string
  | snd_mixer_selem_register
  | snd_mixer_load
  | snd_mixer_find_selem string int
  | snd_mixer_selem_has_playback_switch
  | snd_mixer_selem_set_playback_switch_all int
  | snd_mixer_selem_get_playback_dB_range
  | snd_mixer_close
  | snd_mixer_handle_events
  | snd_mixer_selem_set_playback_dB_all int
  | snd_mixer_selem_get_playback_dB mixer_channel

text \<open>The other calls that leave the program: the C library, the GPIO relay, the visualiser.\<close>

datatype os_call =
    malloc nat
  | usleep nat
  | sleep nat
  | prctl
  | gettime_ms
  | vis_stop
  | relay int
  | relay_script int
  | pthread_create bool

text \<open>
  What the code does to the world outside its own variables, in program order: stores
  into the gain fields of the shared \<open>output\<close> structure made under the lock, and calls
  that leave the program.  The log of these events is a ghost field of the state; the
  code never reads it.
\<close>

datatype event =
    Gain_store u32 u32
  | Pcm pcm_call
  | Mixer mixer_call
  | Os os_call

text \<open>
  The library is not part of the program.  Its answers are given by three functions of
  the log up to and including the call that is answered: the call's return value, and
  the values it stores through its first and second output pointer.  So an answer may
  depend on everything that happened before.
\<close>

record alsa_lib =
  ret :: "event list \<Rightarrow> int"
  out :: "event list \<Rightarrow> int"
  out2 :: "event list \<Rightarrow> int"

text \<open>
  The values of \<open>output.state\<close> (the enum of squeezelite.h, which is not among the
  sources; the code here only compares with \<open>OUTPUT_OFF\<close>) and the log levels.
\<close>

datatype output_state_t =
    OUTPUT_OFF | OUTPUT_STOPPED | OUTPUT_BUFFER | OUTPUT_RUNNING
  | OUTPUT_PAUSE_FRAMES | OUTPUT_SKIP_FRAMES | OUTPUT_START_AT

datatype log_level = lERROR | lWARN | lINFO | lDEBUG | lSDEBUG

text \<open>
  The program state: the static structure \<open>alsa\<close>, the statics \<open>pcmp\<close>,
  \<open>loglevel\<close>, \<open>running\<close> and \<open>recover_count\<close> (local to \<open>_write_frames\<close>), the
  fields of the shared structure \<open>output\<close> that this file reads or writes (prefixed
  with \<open>output_\<close> where \<open>alsa\<close> has a field of the same name), and the two GPIO
  globals.  Pointers are options, \<open>None\<close> for \<open>NULL\<close>; a handle is a number; of the
  buffer \<open>write_buf\<close> only whether it is allocated matters here.
\<close>

record alsa_state =
  device :: string
  ctl :: "string option"
  mixer_ctl :: "string option"
  format :: "pcm_format option"
  buffer_size :: nat
  period_size :: nat
  rate :: u32
  mmap :: bool
  reopen :: bool
  write_buf :: bool
  volume_mixer_name :: "string option"
  mixer_linear :: bool
  linear_dB_internal :: bool
  output_affinity :: bool
  mixer_elem :: "nat option"
  mixer_handle :: "nat option"
  mixer_mindb :: int
  mixer_maxdb :: int
  pcmp :: "nat option"
  loglevel :: log_level
  running :: bool
  recover_count :: u32
  output_state :: output_state_t
  output_device :: string
  current_sample_rate :: u32
  output_buffer :: u32
  output_period :: u32
  output_format :: pcm_format
  start_frames :: nat
  error_opening :: bool
  device_frames :: int
  updated :: int
  frames_played :: nat
  frames_played_dmp :: nat
  gainL :: u32
  gainR :: u32
  gpio_active :: bool
  power_script :: "string option"
  events :: "event list"

text \<open>
  Undefined behaviour of the C code is a value of the model: a read of a table at an
  index outside the array, and a \<open>strcpy\<close> of a string longer than its destination.
  A function that can run into one returns \<open>Inl\<close> of the fault, with the state reached
  so far, and \<open>Inr\<close> of its C return value otherwise.
\<close>

datatype fault = Out_of_bounds_read int | String_overflow nat

section \<open>Constants\<close>

definition MINVOL_DB :: int where
  "MINVOL_DB = -72"

text \<open>The mute sentinel of the ALSA headers (\<open>sound/tlv.h\<close>).\<close>

definition SND_CTL_TLV_DB_GAIN_MUTE :: int where
  "SND_CTL_TLV_DB_GAIN_MUTE = -9999999"

text \<open>
  Modelled from the spec: the macro \<open>FIXED_ONE\<close> is declared in squeezelite.h, which is
  not among the sources; the spec gives the volume scale as 16.16 fixed point with
  65536 as its full value, so unity is \<open>0x10000\<close>.
\<close>

definition FIXED_ONE :: u32 where
  "FIXED_ONE = 0x10000"

definition gscale :: "int list" where
  "gscale = [65536, 61952, 58624, 55296, 52224, 49408, 46592, 44032, 41728, 39424,
             37120, 35072, 33024, 31232, 29696, 27904, 26368, 24832, 23552, 22272,
             20992, 19968, 18688, 17664, 16640, 15872, 14848, 14080, 13312, 12544,
             12032, 11264, 10752,  9984,  9472,  8960,  8448,  7936,  7680,  7168,
              6656,  6400,  6144,  5632,  5376,  5120,  4864,  4608,  4352,  4096,
              3840,  3584,  3328,  3328,  3072,  2816,  2816,  2560,  2304,  2304,
              2048,  2050,  1937,  1830,  1729,  1634,  1543,  1458,  1378,  1302,
              1230,  1162,  1098,  1037,   980,   926,   781,   658,   555,   468,
               395,   333,   281,   237,   200,   168,   142,   120,   101,    85,
                72,    61,    51,    43,    36,    31,    26,    22,    18,    16,
                 0]"

definition gscalenew :: "int list" where
  "gscalenew = [65536, 58409, 52057, 46396, 41350, 36854, 32768, 29274, 26090,
                23253, 20724, 18471, 16384, 14672, 13076, 11654, 10387, 9257, 8192,
                7353, 6554, 5841, 5206, 4640, 4096, 3685, 3285, 2927, 2609, 2325,
                2048, 1847, 1646, 1467, 1308, 1165, 1024, 926, 825, 735, 655,
                584, 512, 464, 414, 369, 328, 293, 256, 233, 207, 185, 165, 147, 128,
                117, 104, 93, 83, 74, 64, 58, 52, 46, 41, 37, 32, 29, 26, 23, 21, 18, 16,
                0, 0, 0, 0, 0, 0, 0, 0, 0, 0, 0, 0, 0, 0, 0, 0, 0, 0, 0, 0, 0, 0, 0, 0, 0, 0, 0, 0]"

section \<open>The volume controller\<close>

text \<open>C division of \<open>long\<close> values truncates towards zero.\<close>

definition c_div :: "int \<Rightarrow> int \<Rightarrow> int" where
  "c_div a b = (if (a < 0) = (b < 0) then \<bar>a\<bar> div \<bar>b\<bar> else - (\<bar>a\<bar> div \<bar>b\<bar>))"

text \<open>
  A read \<open>tab[i]\<close> of a C array with a signed index; \<open>None\<close> when the index is
  outside the array.
\<close>

definition table_read :: "int list \<Rightarrow> int \<Rightarrow> int option" where
  "table_read tab i = (if 0 \<le> i \<and> i < int (length tab) then Some (tab ! nat i) else None)"

text \<open>
  The bracket search of \<open>set_volume\<close>, from loop index \<open>i\<close> on:
  \<^verbatim>\<open>for (i = 0; i < sizeof(gscale) / sizeof(gscale[0]); i++)
     if (gscale[i] < left) { lower = i; break; }\<close>
  The result is the value of \<open>lower\<close> after the loop: the first index whose entry is
  below \<open>left\<close>, or the initial value when the loop runs to the end of the table.
\<close>

function bracket_search :: "int list \<Rightarrow> int \<Rightarrow> nat \<Rightarrow> int \<Rightarrow> int" where
  "bracket_search tab left i lower =
     (if i < length tab
      then (if tab ! i < left then int i else bracket_search tab left (Suc i) lower)
      else lower)"
  by pat_completeness auto
termination
  by (relation "measure (\<lambda>(tab, left, i, lower). length tab - i)") auto

declare bracket_search.simps [simp del]

text \<open>The two stores \<open>output.gainL = l; output.gainR = r;\<close> between LOCK and UNLOCK.\<close>

definition store_gain :: "u32 \<Rightarrow> u32 \<Rightarrow> alsa_state \<Rightarrow> alsa_state" where
  "store_gain l r s = s\<lparr>gainL := l, gainR := r, events := events s @ [Gain_store l r]\<rparr>"

text \<open>
  \<open>set_mixer(setmax, setmin, ldb, rdb)\<close>.  The block under \<open>#ifdef LOG_DEBUG\<close> is
  compiled (the macro is always defined); it reads the levels back and only logs them.
  A failing library call is logged and otherwise ignored, so the results of the calls
  do not enter the model.
\<close>

definition set_mixer :: "bool \<Rightarrow> bool \<Rightarrow> int \<Rightarrow> int \<Rightarrow> alsa_state \<Rightarrow> alsa_state" where
  "set_mixer setmax setmin ldb rdb s =
     (let setmin1 = (if ldb < MINVOL_DB \<or> ldb = SND_CTL_TLV_DB_GAIN_MUTE then True else setmin);
          ldb1 = (if setmax then c_div (mixer_maxdb s) 100 else ldb);
          ldb2 = (if setmin1 then c_div (mixer_mindb s) 100 else ldb1)
      in s\<lparr>events := events s @
            [Mixer snd_mixer_handle_events,
             Mixer (snd_mixer_selem_set_playback_dB_all (100 * ldb2)),
             Mixer snd_mixer_handle_events,
             Mixer (snd_mixer_selem_get_playback_dB SND_MIXER_SCHN_FRONT_LEFT),
             Mixer snd_mixer_handle_events,
             Mixer (snd_mixer_selem_get_playback_dB SND_MIXER_SCHN_FRONT_RIGHT)]\<rparr>)"

text \<open>
  \<open>set_volume(left, right)\<close>.  The first argument \<open>to_dB\<close> stands for the floating
  point expression \<open>floor(20 * log10(left / 65536.0F))\<close> of the non-linear hardware
  mode, which is taken as given.  A \<open>long\<close> stored into a gain field keeps its low 32
  bits (\<open>word_of_int\<close>).
\<close>

definition set_volume :: "(u32 \<Rightarrow> int) \<Rightarrow> u32 \<Rightarrow> u32 \<Rightarrow> alsa_state \<Rightarrow> (fault + unit) \<times> alsa_state" where
  "set_volume to_dB left right s =
     (if volume_mixer_name s = None then
        (if linear_dB_internal s then
           (if 0 < left then
              (let lower = bracket_search gscale (uint left) 0 0 in
               case table_read gscalenew (lower - 1) of
                 None \<Rightarrow> (Inl (Out_of_bounds_read (lower - 1)), s)
               | Some l \<Rightarrow>
                   (case table_read gscalenew (lower - 1) of
                      None \<Rightarrow> (Inl (Out_of_bounds_read (lower - 1)), s)
                    | Some r \<Rightarrow> (Inr (), store_gain (word_of_int l) (word_of_int r) s)))
            else (Inr (), store_gain (word_of_int 0) (word_of_int 0) s))
         else
           (Inr (), store_gain (word_of_int (uint left)) (word_of_int (uint right)) s))
      else
        (let s1 = store_gain FIXED_ONE FIXED_ONE s in
         if \<not> mixer_linear s then
           (if 0 < left then
              (let l = to_dB left in (Inr (), set_mixer False False l l s1))
            else
              (let l = c_div (mixer_mindb s) 100 in (Inr (), set_mixer False True l l s1)))
         else
           (if 0 < left then
              (let low = bracket_search gscale (uint left) 0 0 in
               case table_read gscale (low - 1) of
                 None \<Rightarrow> (Inl (Out_of_bounds_read (low - 1)), s1)
               | Some g_hi \<Rightarrow>
                   (case table_read gscale low of
                      None \<Rightarrow> (Inl (Out_of_bounds_read low), s1)
                    | Some g_lo \<Rightarrow>
                        (let l = (if g_hi - uint left \<ge> uint left - g_lo
                                  then (-1) * low else (-1) * (low - 1))
                         in (Inr (), set_mixer False False l l s1))))
            else
              (let l = c_div (mixer_mindb s) 100 in (Inr (), set_mixer False True l l s1)))))"

text \<open>
  The state at program start: \<open>alsa\<close>, \<open>output\<close> and the other statics have static
  storage, so every field is zero, \<open>false\<close> or \<open>NULL\<close>, except \<open>running\<close>, which
  is initialised to \<open>true\<close>.
\<close>

definition startup :: alsa_state where
  "startup = \<lparr>device = [], ctl = None, mixer_ctl = None, format = None,
     buffer_size = 0, period_size = 0, rate = 0, mmap = False, reopen = False,
     write_buf = False, volume_mixer_name = None, mixer_linear = False,
     linear_dB_internal = False, output_affinity = False, mixer_elem = None,
     mixer_handle = None, mixer_mindb = 0, mixer_maxdb = 0, pcmp = None,
     loglevel = lERROR, running = True, recover_count = 0,
     output_state = OUTPUT_STOPPED, output_device = [], current_sample_rate = 0,
     output_buffer = 0, output_period = 0, output_format = S32_LE, start_frames = 0,
     error_opening = False, device_frames = 0, updated = 0, frames_played = 0,
     frames_played_dmp = 0, gainL = 0, gainR = 0, gpio_active = False,
     power_script = None, events = []\<rparr>"

text \<open>The levels passed to \<open>snd_mixer_selem_set_playback_dB_all\<close>, in the order of the calls.\<close>

fun mixer_commands :: "event list \<Rightarrow> int list" where
  "mixer_commands [] = []"
| "mixer_commands (Mixer (snd_mixer_selem_set_playback_dB_all v) # es) = v # mixer_commands es"
| "mixer_commands (e # es) = mixer_commands es"

text \<open>The events that are stores into the gain fields.\<close>

fun is_gain_store :: "event \<Rightarrow> bool" where
  "is_gain_store (Gain_store l r) = True"
| "is_gain_store e = False"

section \<open>The device session\<close>

definition MAX_DEVICE_LEN :: nat where
  "MAX_DEVICE_LEN = 128"

text \<open>
  Modelled from the spec: the macro \<open>BYTES_PER_FRAME\<close> is declared in squeezelite.h,
  which is not among the sources; the spec gives a frame as two channels of 32-bit
  samples, so a frame has 8 bytes.
\<close>

definition BYTES_PER_FRAME :: nat where
  "BYTES_PER_FRAME = 8"

text \<open>\<open>NATIVE_FORMAT\<close> on a little-endian host (\<open>SL_LITTLE_ENDIAN\<close>).\<close>

definition NATIVE_FORMAT :: pcm_format where
  "NATIVE_FORMAT = S32_LE"

text \<open>
  The preference list \<open>fmts\<close>; its terminator \<open>SND_PCM_FORMAT_UNKNOWN\<close> is the end of
  the list.
\<close>

definition fmts :: "pcm_format list" where
  "fmts = [S32_LE, S24_LE, S24_3LE, S16_LE]"

text \<open>
  A call that leaves the program: the event is appended to the log, and the result is
  the library's return value for the log so far, with the new state.
\<close>

definition call :: "alsa_lib \<Rightarrow> event \<Rightarrow> alsa_state \<Rightarrow> int \<times> alsa_state" where
  "call lib e s = (ret lib (events s @ [e]), s\<lparr>events := events s @ [e]\<rparr>)"

text \<open>\<open>alsa_close\<close>: an error of \<open>snd_pcm_close\<close> is logged only.\<close>

definition alsa_close :: "alsa_lib \<Rightarrow> alsa_state \<Rightarrow> alsa_state" where
  "alsa_close lib s = snd (call lib (Pcm snd_pcm_close) s)"

text \<open>The test \<open>!strncmp(d, "hw:", 3)\<close> on a C string \<open>d\<close>.\<close>

definition is_hw :: "string \<Rightarrow> bool" where
  "is_hw d = (take 3 d = ''hw:'')"

text \<open>
  The \<open>do ... while (retry)\<close> loop of \<open>alsa_open\<close>.  The result is \<open>Some err\<close> when
  the loop leaves \<open>alsa_open\<close> with \<open>return err\<close>, and \<open>None\<close> when it falls through
  to the code after the loop.  \<open>snd_pcm_open\<close> stores the new handle into \<open>pcmp\<close> when
  it succeeds.  The loop runs again only from a device name that starts with \<open>hw:\<close>,
  and then with a name that starts with \<open>plug\<close>, which is why it terminates.
\<close>

function open_retry :: "alsa_lib \<Rightarrow> string \<Rightarrow> u32 \<Rightarrow> alsa_state \<Rightarrow> int option \<times> alsa_state" where
  "open_retry lib dev sample_rate s =
     (let r1 = call lib (Pcm (snd_pcm_open (device s))) s in
      if fst r1 < 0 then (Some (fst r1), snd r1)
      else
        let s1 = (snd r1)\<lparr>pcmp := Some (nat (out lib (events (snd r1))))\<rparr>;
            r2 = call lib (Pcm snd_pcm_hw_params_any) s1 in
        if fst r2 < 0 then (Some (fst r2), snd r2)
        else
          let hw = is_hw (device (snd r2));
              r3 = call lib (Pcm (snd_pcm_hw_params_set_rate_resample (\<not> hw))) (snd r2) in
          if fst r3 < 0 then (Some (fst r3), snd r3)
          else
            let r4 = call lib (Pcm (snd_pcm_hw_params_set_rate sample_rate)) (snd r3) in
            if fst r4 < 0 \<and> hw
            then open_retry lib dev sample_rate
                   (snd (call lib (Pcm snd_pcm_close) ((snd r4)\<lparr>device := ''plug'' @ dev\<rparr>)))
            else (None, snd r4))"
  by pat_completeness auto
termination
  by (relation "measure (\<lambda>(lib, dev, sample_rate, s). if is_hw (device s) then 1 else 0)")
     (auto simp: call_def is_hw_def)

declare open_retry.simps [simp del]

text \<open>
  The block ``set access'': the memory-mapped mode is asked for only when \<open>alsa.mmap\<close>
  is set, and the copy mode when it is not set or was refused.
\<close>

definition set_access :: "alsa_lib \<Rightarrow> alsa_state \<Rightarrow> int option \<times> alsa_state" where
  "set_access lib s =
     (let r1 = (if mmap s
                then call lib (Pcm (snd_pcm_hw_params_set_access SND_PCM_ACCESS_MMAP_INTERLEAVED)) s
                else (0, s)) in
      if \<not> mmap s \<or> fst r1 < 0 then
        (let r2 = call lib (Pcm (snd_pcm_hw_params_set_access SND_PCM_ACCESS_RW_INTERLEAVED)) (snd r1) in
         if fst r2 < 0 then (Some (fst r2), snd r2)
         else (None, (snd r2)\<lparr>mmap := False\<rparr>))
      else (None, snd r1))"

text \<open>
  The format loop, over the formats still to try: the one format \<open>alsa.format\<close> when it
  is set, the list \<open>fmts\<close> otherwise.  Running out of formats is \<open>return -1\<close>.
\<close>

fun try_formats :: "alsa_lib \<Rightarrow> pcm_format list \<Rightarrow> alsa_state \<Rightarrow> int option \<times> alsa_state" where
  "try_formats lib [] s = (Some (-1), s)"
| "try_formats lib (f # fs) s =
     (let r = call lib (Pcm (snd_pcm_hw_params_set_format f)) s in
      if fst r \<ge> 0 then (None, (snd r)\<lparr>format := Some f\<rparr>)
      else try_formats lib fs (snd r))"

definition set_format :: "alsa_lib \<Rightarrow> alsa_state \<Rightarrow> int option \<times> alsa_state" where
  "set_format lib s =
     (case try_formats lib (case format s of Some f \<Rightarrow> [f] | None \<Rightarrow> fmts) s of
        (Some err, s1) \<Rightarrow> (Some err, s1)
      | (None, s1) \<Rightarrow>
          (None, (case format s1 of Some f \<Rightarrow> s1\<lparr>output_format := f\<rparr> | None \<Rightarrow> s1)))"

text \<open>The block ``set period size'': a value below 50 is a period count.\<close>

definition set_period :: "alsa_lib \<Rightarrow> u32 \<Rightarrow> alsa_state \<Rightarrow> int option \<times> alsa_state" where
  "set_period lib alsa_period s =
     (let r = (if alsa_period < 50
               then call lib (Pcm (snd_pcm_hw_params_set_periods_near alsa_period)) s
               else call lib (Pcm (snd_pcm_hw_params_set_period_size_near (unat alsa_period))) s) in
      if fst r < 0 then (Some (fst r), snd r) else (None, snd r))"

text \<open>
  The block ``set buffer size'': a value below 500 is a buffer time in milliseconds,
  passed on in microseconds (a 32-bit product); any other value is a size in frames.
\<close>

definition set_buffer :: "alsa_lib \<Rightarrow> u32 \<Rightarrow> alsa_state \<Rightarrow> int option \<times> alsa_state" where
  "set_buffer lib alsa_buffer s =
     (let r = (if alsa_buffer < 500
               then call lib (Pcm (snd_pcm_hw_params_set_buffer_time_near (alsa_buffer * 1000))) s
               else call lib (Pcm (snd_pcm_hw_params_set_buffer_size_near (unat alsa_buffer))) s) in
      if fst r < 0 then (Some (fst r), snd r) else (None, snd r))"

text \<open>
  The two queries \<open>snd_pcm_hw_params_get_period_size\<close> and \<open>..._get_buffer_size\<close>,
  which store the negotiated sizes, and the store into \<open>output.start_frames\<close>.
\<close>

definition get_sizes :: "alsa_lib \<Rightarrow> alsa_state \<Rightarrow> int option \<times> alsa_state" where
  "get_sizes lib s =
     (let r1 = call lib (Pcm snd_pcm_hw_params_get_period_size) s in
      if fst r1 < 0 then (Some (fst r1), snd r1)
      else
        let s1 = (snd r1)\<lparr>period_size := nat (out lib (events (snd r1)))\<rparr>;
            r2 = call lib (Pcm snd_pcm_hw_params_get_buffer_size) s1 in
        if fst r2 < 0 then (Some (fst r2), snd r2)
        else
          let s2 = (snd r2)\<lparr>buffer_size := nat (out lib (events (snd r2)))\<rparr> in
          (None, s2\<lparr>start_frames := buffer_size s2 * 2\<rparr>))"

text \<open>
  The end of \<open>alsa_open\<close>: the intermediate buffer of the copy mode (\<open>malloc\<close> returns 0
  for \<open>NULL\<close>), \<open>snd_pcm_hw_params\<close>, the dump at log level \<open>lSDEBUG\<close>, and the store of
  the rate that marks the device as open.
\<close>

definition finish_open :: "alsa_lib \<Rightarrow> u32 \<Rightarrow> alsa_state \<Rightarrow> int \<times> alsa_state" where
  "finish_open lib sample_rate s =
     (let need_buf = (\<not> mmap s \<and> \<not> write_buf s \<and> format s \<noteq> Some NATIVE_FORMAT);
          r1 = (if need_buf then call lib (Os (malloc (buffer_size s * BYTES_PER_FRAME))) s
                else (0, s));
          s1 = (if need_buf then (snd r1)\<lparr>write_buf := (fst r1 \<noteq> 0)\<rparr> else s) in
      if need_buf \<and> fst r1 = 0 then (-1, s1)
      else
        let r2 = call lib (Pcm snd_pcm_hw_params) s1 in
        if fst r2 < 0 then (fst r2, snd r2)
        else
          let s2 = (if loglevel (snd r2) = lSDEBUG
                    then snd (call lib (Pcm snd_pcm_dump) (snd r2)) else snd r2) in
          (0, s2\<lparr>rate := sample_rate\<rparr>))"

text \<open>
  The body of \<open>alsa_open\<close> from the retry loop to the end: each step either leaves
  the function with its error code or hands the state on to the next step.
\<close>

definition negotiate :: "alsa_lib \<Rightarrow> string \<Rightarrow> u32 \<Rightarrow> u32 \<Rightarrow> u32 \<Rightarrow> alsa_state \<Rightarrow> int \<times> alsa_state" where
  "negotiate lib dev sample_rate alsa_buffer alsa_period s =
     (case open_retry lib dev sample_rate s of
        (Some err, s1) \<Rightarrow> (err, s1)
      | (None, s1) \<Rightarrow>
     (case set_access lib s1 of
        (Some err, s2) \<Rightarrow> (err, s2)
      | (None, s2) \<Rightarrow>
     (case set_format lib s2 of
        (Some err, s3) \<Rightarrow> (err, s3)
      | (None, s3) \<Rightarrow>
     (let r = call lib (Pcm (snd_pcm_hw_params_set_channels 2)) s3 in
      if fst r < 0 then (fst r, snd r)
      else
     (case set_period lib alsa_period (snd r) of
        (Some err, s4) \<Rightarrow> (err, s4)
      | (None, s4) \<Rightarrow>
     (case set_buffer lib alsa_buffer s4 of
        (Some err, s5) \<Rightarrow> (err, s5)
      | (None, s5) \<Rightarrow>
     (case get_sizes lib s5 of
        (Some err, s6) \<Rightarrow> (err, s6)
      | (None, s6) \<Rightarrow> finish_open lib sample_rate s6)))))))"

text \<open>
  \<open>alsa_open(device, sample_rate, alsa_buffer, alsa_period)\<close>, in the build without
  DSD.  An open device is closed first (\<open>pcmp\<close> keeps the closed handle).  The device
  name is copied into the 129 bytes of \<open>alsa.device\<close> before its length is checked, so
  a name of more than 128 characters overflows the field.
\<close>

definition alsa_open :: "alsa_lib \<Rightarrow> string \<Rightarrow> u32 \<Rightarrow> u32 \<Rightarrow> u32 \<Rightarrow> alsa_state \<Rightarrow> (fault + int) \<times> alsa_state" where
  "alsa_open lib dev sample_rate alsa_buffer alsa_period s =
     (let s0 = (if pcmp s \<noteq> None then alsa_close lib s else s);
          s1 = s0\<lparr>rate := 0, period_size := 0\<rparr> in
      if MAX_DEVICE_LEN < length dev then (Inl (String_overflow (length dev)), s1)
      else
        let s2 = s1\<lparr>device := dev\<rparr> in
        if MAX_DEVICE_LEN - 4 - 1 < length dev then (Inr (-1), s2)
        else
          let r = negotiate lib dev sample_rate alsa_buffer alsa_period s2 in
          (Inr (fst r), snd r))"

text \<open>The device names passed to \<open>snd_pcm_open\<close>, in the order of the calls.\<close>

fun opened_devices :: "event list \<Rightarrow> string list" where
  "opened_devices [] = []"
| "opened_devices (Pcm (snd_pcm_open d) # es) = d # opened_devices es"
| "opened_devices (e # es) = opened_devices es"

text \<open>The two requests that negotiate the buffer.\<close>

fun is_buffer_request :: "event \<Rightarrow> bool" where
  "is_buffer_request (Pcm (snd_pcm_hw_params_set_buffer_time_near t)) = True"
| "is_buffer_request (Pcm (snd_pcm_hw_params_set_buffer_size_near n)) = True"
| "is_buffer_request e = False"

text \<open>The five calls that the retry loop of \<open>alsa_open\<close> makes.\<close>

fun is_open_loop_call :: "event \<Rightarrow> bool" where
  "is_open_loop_call (Pcm (snd_pcm_open d)) = True"
| "is_open_loop_call (Pcm snd_pcm_close) = True"
| "is_open_loop_call (Pcm snd_pcm_hw_params_any) = True"
| "is_open_loop_call (Pcm (snd_pcm_hw_params_set_rate_resample b)) = True"
| "is_open_loop_call (Pcm (snd_pcm_hw_params_set_rate r)) = True"
| "is_open_loop_call e = False"

text \<open>
  After the log \<open>pre\<close>, the library lets the device \<open>d\<close> be opened and set up as far
  as the resampling flag, and then refuses the sample rate \<open>r\<close>.
\<close>

definition rate_refused :: "alsa_lib \<Rightarrow> event list \<Rightarrow> string \<Rightarrow> u32 \<Rightarrow> bool" where
  "rate_refused lib pre d r =
     (0 \<le> ret lib (pre @ [Pcm (snd_pcm_open d)])
      \<and> 0 \<le> ret lib (pre @ [Pcm (snd_pcm_open d), Pcm snd_pcm_hw_params_any])
      \<and> 0 \<le> ret lib (pre @ [Pcm (snd_pcm_open d), Pcm snd_pcm_hw_params_any,
                                Pcm (snd_pcm_hw_params_set_rate_resample (\<not> is_hw d))])
      \<and> ret lib (pre @ [Pcm (snd_pcm_open d), Pcm snd_pcm_hw_params_any,
                            Pcm (snd_pcm_hw_params_set_rate_resample (\<not> is_hw d)),
                            Pcm (snd_pcm_hw_params_set_rate r)]) < 0)"

text \<open>
  A library whose device \<open>hw:0\<close> refuses every sample rate, while the device
  \<open>plughw:0\<close> accepts it; every other call succeeds.
\<close>

definition lib_hw_refuses_rate :: alsa_lib where
  "lib_hw_refuses_rate =
     \<lparr>ret = (\<lambda>h. case last h of
                     Pcm (snd_pcm_hw_params_set_rate r) \<Rightarrow>
                       (if last (opened_devices h) = ''hw:0'' then -22 else 1)
                   | _ \<Rightarrow> 1),
      out = (\<lambda>h. 4096), out2 = (\<lambda>h. 0)\<rparr>"

text \<open>
  A library in which every call succeeds: each call returns 1 (no error, a non-null
  pointer, one frame) and stores 4096 through its first output pointer.
\<close>

definition lib_ok :: alsa_lib where
  "lib_ok = \<lparr>ret = (\<lambda>h. 1), out = (\<lambda>h. 4096), out2 = (\<lambda>h. 0)\<rparr>"

section \<open>Writing frames\<close>

text \<open>
  The conversion of a \<open>long\<close> to the \<open>int\<close> parameter of \<open>snd_pcm_recover\<close>: the low
  32 bits, read as a signed number.
\<close>

definition c_int :: "int \<Rightarrow> int" where
  "c_int x = sint (word_of_int x :: 32 word)"

text \<open>
  \<open>_write_frames(out_frames, silence, ...)\<close>, the callback through which the common
  output code hands frames to the device.  Between the claim of the hardware region and
  the write, the C code cross-fades, scales and packs the samples (\<open>_apply_cross\<close>,
  \<open>_scale_and_pack_frames\<close>, \<open>_apply_gain\<close>, which live in other files); these steps work
  on sample memory only and touch neither the device handle nor the error counter, so
  the model keeps the frame counts and leaves the samples out.  \<open>frames_t\<close> is a 32-bit
  unsigned, the result is \<open>(int)out_frames\<close>.
\<close>

text \<open>
  The only statement that counts an unrecoverable error is
  \<open>LOG_WARN("recover failed: %s [%u]", snd_strerror(err), ++recover_count)\<close>: the
  increment is an argument of the logging macro.  \<open>LOG_WARN\<close> is declared in
  squeezelite.h, which is not among the sources, so whether the macro evaluates its
  arguments at a given log level is the parameter \<open>log_warn\<close> of the model.  The test
  \<open>recover_count >= 10\<close> that follows is made in any case.
\<close>

definition write_frames :: "alsa_lib \<Rightarrow> (log_level \<Rightarrow> bool) \<Rightarrow> u32 \<Rightarrow> alsa_state \<Rightarrow> int \<times> alsa_state" where
  "write_frames lib log_warn out_frames s =
     (if mmap s then
        (let s1 = snd (call lib (Pcm snd_pcm_avail_update) s);
             r2 = call lib (Pcm (snd_pcm_mmap_begin (unat out_frames))) s1 in
         if fst r2 < 0 then (-1, snd r2)
         else
           let frames = (word_of_int (out lib (events (snd r2))) :: u32);
               r3 = call lib (Pcm (snd_pcm_mmap_commit (unat frames))) (snd r2);
               w = fst r3 in
           if w < 0 \<or> w \<noteq> uint frames then (-1, snd r3)
           else (sint frames, snd r3))
      else
        (let r1 = call lib (Pcm (snd_pcm_writei (unat out_frames))) s;
             w = fst r1 in
         if w < 0 then
           (let r2 = call lib (Pcm (snd_pcm_recover (c_int w))) (snd r1) in
            if fst r2 < 0 then
              (let s2 = (if log_warn (loglevel (snd r2))
                         then (snd r2)\<lparr>recover_count := recover_count (snd r2) + 1\<rparr>
                         else snd r2) in
               if recover_count s2 \<ge> 10
               then (-1, (alsa_close lib (s2\<lparr>recover_count := 0\<rparr>))\<lparr>pcmp := None\<rparr>)
               else (-1, s2))
            else (-1, snd r2))
         else (sint (word_of_int w :: u32), snd r1)))"

text \<open>
  The macro of the squeezelite sources this file belongs to is
  \<open>#define LOG_WARN(fmt, ...) if (loglevel >= lWARN) logprint(...)\<close>, with the levels
  in the order \<open>lERROR\<close>, \<open>lWARN\<close>, \<open>lINFO\<close>, \<open>lDEBUG\<close>, \<open>lSDEBUG\<close>: the arguments are
  evaluated at every level but \<open>lERROR\<close>.
\<close>

definition log_warn_from_lWARN :: "log_level \<Rightarrow> bool" where
  "log_warn_from_lWARN lv = (lv \<noteq> lERROR)"

text \<open>A run of calls of \<open>_write_frames\<close>, one for each frame count of the list.\<close>

fun write_all :: "alsa_lib \<Rightarrow> (log_level \<Rightarrow> bool) \<Rightarrow> u32 list \<Rightarrow> alsa_state \<Rightarrow> alsa_state" where
  "write_all lib log_warn [] s = s"
| "write_all lib log_warn (n # ns) s = write_all lib log_warn ns (snd (write_frames lib log_warn n s))"

text \<open>
  The call \<open>_write_frames(n, ...)\<close> in the state \<open>s\<close> runs into an unrecoverable write
  error: it calls \<open>snd_pcm_writei\<close> (which only the copy path does), the write fails,
  and \<open>snd_pcm_recover\<close> fails as well.
\<close>

definition unrecoverable :: "alsa_lib \<Rightarrow> alsa_state \<Rightarrow> u32 \<Rightarrow> bool" where
  "unrecoverable lib s n =
     (\<not> mmap s
      \<and> ret lib (events s @ [Pcm (snd_pcm_writei (unat n))]) < 0
      \<and> ret lib (events s @ [Pcm (snd_pcm_writei (unat n)),
                       Pcm (snd_pcm_recover (c_int (ret lib (events s @ [Pcm (snd_pcm_writei (unat n))]))))]) < 0)"

text \<open>
  A library in which every call fails with \<open>-32\<close> (\<open>-EPIPE\<close>), except the call that
  is the 19th event of the log, which returns 64.  From an empty log, nine failing
  writes log a write and a recovery each, so the 19th event is the tenth write.
\<close>

definition lib_tenth_write_ok :: alsa_lib where
  "lib_tenth_write_ok =
     \<lparr>ret = (\<lambda>h. if length h = 19 then 64 else -32), out = (\<lambda>h. 0), out2 = (\<lambda>h. 0)\<rparr>"

text \<open>A library in which every call fails with \<open>-32\<close>.\<close>

definition lib_fails :: alsa_lib where
  "lib_fails = \<lparr>ret = (\<lambda>h. -32), out = (\<lambda>h. 0), out2 = (\<lambda>h. 0)\<rparr>"

section \<open>Initialisation\<close>

text \<open>
  \<open>ctl4device\<close>: the control device of a \<open>hw:\<close> or \<open>plughw:\<close> device is its name
  without the \<open>plug\<close> prefix, cut at the last comma; any other name is taken as it is.
\<close>

definition cut_last_comma :: "string \<Rightarrow> string" where
  "cut_last_comma d =
     (if CHR '','' \<in> set d then rev (tl (dropWhile (\<lambda>c. c \<noteq> CHR '','') (rev d))) else d)"

definition ctl4device :: "string \<Rightarrow> string" where
  "ctl4device d =
     (if take 3 d = ''hw:'' then cut_last_comma d
      else if take 7 d = ''plughw:'' then cut_last_comma (drop 4 d)
      else d)"

text \<open>
  \<open>mixer_init_alsa(device, mixer, mixer_index)\<close>.  \<open>snd_mixer_open\<close> stores the handle
  when it succeeds; \<open>snd_mixer_find_selem\<close> returns the element, 0 for \<open>NULL\<close>;
  \<open>snd_mixer_selem_get_playback_dB_range\<close> stores the range through its two output
  pointers.  The last failure returns without closing the mixer.
\<close>

definition mixer_init_alsa :: "alsa_lib \<Rightarrow> string \<Rightarrow> string \<Rightarrow> int \<Rightarrow> alsa_state \<Rightarrow> int \<times> alsa_state" where
  "mixer_init_alsa lib dev mixer mixer_index s =
     (let r1 = call lib (Mixer snd_mixer_open) s in
      if fst r1 < 0 then (-1, snd r1)
      else
        let s1 = (snd r1)\<lparr>mixer_handle := Some (nat (out lib (events (snd r1))))\<rparr>;
            r2 = call lib (Mixer (snd_mixer_attach dev)) s1 in
        if fst r2 < 0 then (-1, snd (call lib (Mixer snd_mixer_close) (snd r2)))
        else
          let r3 = call lib (Mixer snd_mixer_selem_register) (snd r2) in
          if fst r3 < 0 then (-1, snd (call lib (Mixer snd_mixer_close) (snd r3)))
          else
            let r4 = call lib (Mixer snd_mixer_load) (snd r3) in
            if fst r4 < 0 then (-1, snd (call lib (Mixer snd_mixer_close) (snd r4)))
            else
              let r5 = call lib (Mixer (snd_mixer_find_selem mixer mixer_index)) (snd r4);
                  s5 = (snd r5)\<lparr>mixer_elem := (if fst r5 = 0 then None else Some (nat (fst r5)))\<rparr> in
              if mixer_elem s5 = None then (-1, snd (call lib (Mixer snd_mixer_close) s5))
              else
                let s6 = snd (call lib (Mixer snd_mixer_handle_events) s5);
                    r7 = call lib (Mixer snd_mixer_selem_has_playback_switch) s6;
                    s7 = (if fst r7 \<noteq> 0
                          then snd (call lib (Mixer (snd_mixer_selem_set_playback_switch_all 1)) (snd r7))
                          else snd r7);
                    s8 = snd (call lib (Mixer snd_mixer_handle_events) s7);
                    r9 = call lib (Mixer snd_mixer_selem_get_playback_dB_range) s8 in
                if fst r9 < 0 then (-1, snd r9)
                else (0, (snd r9)\<lparr>mixer_mindb := out lib (events (snd r9)),
                                   mixer_maxdb := out2 lib (events (snd r9))\<rparr>))"

text \<open>
  The arguments of \<open>output_init_alsa\<close>, after the parameter strings have been taken
  apart (by \<open>next_param\<close> and \<open>atoi\<close>, which are not part of this file): the five fields
  \<open>t:c:s:m:r\<close> of \<open>params\<close>, each absent or present, the name and index of
  \<open>volume_mixer\<close>, and whether \<open>rates[0]\<close> is set.  \<open>ALSA_BUFFER_TIME\<close> and
  \<open>ALSA_PERIOD_COUNT\<close> are macros of squeezelite.h, which is not among the sources; they
  are given with the arguments.
\<close>

record init_args =
  arg_level :: log_level
  arg_device :: string
  arg_ALSA_BUFFER_TIME :: u32
  arg_ALSA_PERIOD_COUNT :: u32
  arg_t :: "u32 option"
  arg_c :: "u32 option"
  arg_s :: "string option"
  arg_m :: "bool option"
  arg_r :: "bool option"
  arg_rates0 :: bool
  arg_mixer_device :: "string option"
  arg_volume_mixer_name :: "string option"
  arg_volume_mixer_index :: "int option"
  arg_mixer_unmute :: bool
  arg_mixer_linear :: bool
  arg_linear_dB_internal :: bool
  arg_output_affinity :: bool

text \<open>
  The first part of \<open>output_init_alsa\<close>, up to the call of \<open>output_init_common\<close>:
  \<open>memset(&output, 0, sizeof(output))\<close> and the settings taken from the arguments.  The
  fields \<open>write_cb\<close> and \<open>rate_delay\<close> of \<open>output\<close>, which this file sets and never
  reads, are left out.
\<close>

definition init_settings :: "init_args \<Rightarrow> alsa_state \<Rightarrow> alsa_state" where
  "init_settings a s =
     (let alsa_buffer = (case arg_t a of Some t \<Rightarrow> t | None \<Rightarrow> arg_ALSA_BUFFER_TIME a);
          alsa_period = (case arg_c a of Some c \<Rightarrow> c | None \<Rightarrow> arg_ALSA_PERIOD_COUNT a);
          alsa_mmap = (case arg_m a of Some m \<Rightarrow> m | None \<Rightarrow> True);
          alsa_reopen = (case arg_r a of Some r \<Rightarrow> r | None \<Rightarrow> False);
          s1 = s\<lparr>loglevel := arg_level a,
                 output_state := OUTPUT_STOPPED, output_device := [], current_sample_rate := 0,
                 output_buffer := 0, output_period := 0, output_format := S32_LE,
                 start_frames := 0, error_opening := False, device_frames := 0, updated := 0,
                 frames_played := 0, frames_played_dmp := 0, gainL := 0, gainR := 0\<rparr>;
          s2 = s1\<lparr>mmap := alsa_mmap, write_buf := False, format := None,
                  reopen := alsa_reopen, mixer_handle := None,
                  ctl := Some (ctl4device (arg_device a))\<rparr>;
          s3 = s2\<lparr>mixer_ctl := (case arg_mixer_device a of
                                  Some md \<Rightarrow> Some (ctl4device md) | None \<Rightarrow> ctl s2),
                  volume_mixer_name := arg_volume_mixer_name a,
                  mixer_linear := arg_mixer_linear a,
                  linear_dB_internal := arg_linear_dB_internal a,
                  output_affinity := arg_output_affinity a\<rparr>;
          s4 = s3\<lparr>output_format := S32_LE, output_buffer := alsa_buffer,
                  output_period := alsa_period, start_frames := 0\<rparr>
      in case arg_s a of
           None \<Rightarrow> s4
         | Some f \<Rightarrow>
             s4\<lparr>format := (if f = ''16'' then Some S16_LE
                            else if f = ''24_3'' then Some S24_3LE
                            else if f = ''24'' then Some S24_LE
                            else if f = ''32'' then Some S32_LE
                            else None)\<rparr>)"

text \<open>
  \<open>output_init_alsa\<close>.  \<open>output_init_common\<close> belongs to another file and is a
  parameter of the model; \<open>alsa\<close> is static to this file, so the values that the mixer
  block reads from it are those that \<open>init_settings\<close> stored.  After the thread is
  created the C code only asks for scheduling priority and processor affinity and logs
  the result; that part changes nothing of the state and is left out.
\<close>

definition output_init_alsa :: "alsa_lib \<Rightarrow> (alsa_state \<Rightarrow> alsa_state) \<Rightarrow> init_args \<Rightarrow> alsa_state \<Rightarrow> alsa_state" where
  "output_init_alsa lib output_init_common a s =
     (let s1 = output_init_common (init_settings a s);
          s2 = (case arg_volume_mixer_name a of
                  None \<Rightarrow> s1
                | Some name \<Rightarrow>
                    (let r = mixer_init_alsa lib
                               (case mixer_ctl (init_settings a s) of Some c \<Rightarrow> c | None \<Rightarrow> [])
                               name
                               (case arg_volume_mixer_index a of Some i \<Rightarrow> i | None \<Rightarrow> 0) s1 in
                     if fst r < 0
                     then (snd r)\<lparr>mixer_handle := None, volume_mixer_name := None\<rparr>
                     else snd r));
          s3 = (if arg_mixer_unmute a \<and> volume_mixer_name s2 \<noteq> None
                then (set_mixer True False 0 0 s2)\<lparr>volume_mixer_name := None\<rparr>
                else s2)
      in snd (call lib (Os (pthread_create (arg_rates0 a))) s3))"

fun is_mixer_call :: "event \<Rightarrow> bool" where
  "is_mixer_call (Mixer c) = True"
| "is_mixer_call e = False"

text \<open>A library without a mixer: \<open>snd_mixer_open\<close> fails, every other call succeeds.\<close>

definition lib_no_mixer :: alsa_lib where
  "lib_no_mixer =
     \<lparr>ret = (\<lambda>h. case last h of Mixer snd_mixer_open \<Rightarrow> -2 | _ \<Rightarrow> 1),
      out = (\<lambda>h. 4096), out2 = (\<lambda>h. 0)\<rparr>"

definition args0 :: init_args where
  "args0 = \<lparr>arg_level = lINFO, arg_device = ''hw:0,0'', arg_ALSA_BUFFER_TIME = 40,
     arg_ALSA_PERIOD_COUNT = 4, arg_t = None, arg_c = None, arg_s = None, arg_m = None,
     arg_r = None, arg_rates0 = False, arg_mixer_device = None,
     arg_volume_mixer_name = Some ''PCM'', arg_volume_mixer_index = None,
     arg_mixer_unmute = False, arg_mixer_linear = False, arg_linear_dB_internal = False,
     arg_output_affinity = False\<rparr>"

section \<open>The output thread\<close>

text \<open>
  The states of \<open>snd_pcm_state\<close> that the thread tests for (\<open>alsa/pcm.h\<close>), and the
  error numbers of Linux that it compares with.
\<close>

definition SND_PCM_STATE_XRUN :: int where "SND_PCM_STATE_XRUN = 4"
definition SND_PCM_STATE_SUSPENDED :: int where "SND_PCM_STATE_SUSPENDED = 7"
definition SND_PCM_STATE_DISCONNECTED :: int where "SND_PCM_STATE_DISCONNECTED = 8"
definition EIO :: int where "EIO = 5"
definition ENODEV :: int where "ENODEV = 19"
definition EPIPE :: int where "EPIPE = 32"
definition ESTRPIPE :: int where "ESTRPIPE = 86"

text \<open>
  \<open>output_thread\<close> never returns while the player runs, and three of its loops wait for
  something outside the program.  The model is a transition function: one step is one
  pass through one of these loops.  The thread is at the test of \<open>while (running)\<close>, at
  the test of \<open>while (output_off)\<close>, at the probe of the device, at the body of the main
  loop (from the test of \<open>pcmp\<close> and the rate to the end of the iteration), or it has
  returned.
\<close>

datatype place = At_running_test | At_off_wait | At_probe | At_body | Has_returned

text \<open>The local variables of \<open>output_thread\<close>, and the place the thread is at.\<close>

record locals =
  start :: bool
  output_off :: bool
  probe_device :: bool
  place :: place

text \<open>\<open>pcm_probe(device)\<close>: open and close a handle of its own.\<close>

definition pcm_probe :: "alsa_lib \<Rightarrow> string \<Rightarrow> alsa_state \<Rightarrow> bool \<times> alsa_state" where
  "pcm_probe lib dev s =
     (let r = call lib (Pcm (snd_pcm_open dev)) s in
      if fst r < 0 then (False, snd r)
      else (True, snd (call lib (Pcm snd_pcm_close) (snd r))))"

text \<open>
  The three places where the thread gives up a device that has gone:
  \<open>alsa_close(); pcmp = NULL; probe_device = true; continue;\<close>
\<close>

definition device_gone :: "alsa_lib \<Rightarrow> locals \<Rightarrow> alsa_state \<Rightarrow> locals \<times> alsa_state" where
  "device_gone lib l s = (l\<lparr>probe_device := True\<rparr>, (alsa_close lib s)\<lparr>pcmp := None\<rparr>)"

text \<open>
  The calls of the GPIO build around a change of power: \<open>relay\<close> when \<open>gpio_active\<close> is
  set, \<open>relay_script\<close> when a power script is configured.
\<close>

definition power :: "alsa_lib \<Rightarrow> int \<Rightarrow> alsa_state \<Rightarrow> alsa_state" where
  "power lib on s =
     (let s1 = (if gpio_active s then snd (call lib (Os (relay on)) s) else s) in
      if power_script s1 \<noteq> None then snd (call lib (Os (relay_script on)) s1) else s1)"

text \<open>
  The first block of the body: (re)open the device when there is none or the rate has
  changed.  The result says whether the iteration ends here (\<open>continue\<close> after a failed
  open).  The result of the extra open of the \<open>reopen\<close> workaround is ignored.
\<close>

definition open_if_needed :: "alsa_lib \<Rightarrow> locals \<Rightarrow> alsa_state \<Rightarrow> (fault + bool \<times> locals) \<times> alsa_state" where
  "open_if_needed lib l s =
     (if pcmp s = None \<or> rate s \<noteq> current_sample_rate s then
        (let s1 = power lib 1 s;
             r1 = (if reopen s1
                   then alsa_open lib (output_device s1) (current_sample_rate s1)
                          (output_buffer s1) (output_period s1) s1
                   else (Inr 0, s1)) in
         case fst r1 of
           Inl f \<Rightarrow> (Inl f, snd r1)
         | Inr e1 \<Rightarrow>
             (let r2 = alsa_open lib (output_device (snd r1)) (current_sample_rate (snd r1))
                         (output_buffer (snd r1)) (output_period (snd r1)) (snd r1) in
              case fst r2 of
                Inl f \<Rightarrow> (Inl f, snd r2)
              | Inr e2 \<Rightarrow>
                  if e2 \<noteq> 0
                  then (Inr (True, l),
                        snd (call lib (Os (sleep 5)) ((snd r2)\<lparr>error_opening := True\<rparr>)))
                  else (Inr (False, l\<lparr>start := True\<rparr>), (snd r2)\<lparr>error_opening := False\<rparr>)))
      else (Inr (False, l), s))"

text \<open>
  The test of \<open>snd_pcm_state\<close>.  The result says whether the iteration ends here.
\<close>

definition check_state :: "alsa_lib \<Rightarrow> locals \<Rightarrow> alsa_state \<Rightarrow> (bool \<times> locals) \<times> alsa_state" where
  "check_state lib l s =
     (let r = call lib (Pcm snd_pcm_state) s in
      if fst r = SND_PCM_STATE_XRUN then
        (let r1 = call lib (Pcm (snd_pcm_recover (- EPIPE))) (snd r);
             s1 = (if fst r1 < 0 then snd (call lib (Os (usleep 10000)) (snd r1)) else snd r1) in
         ((True, l\<lparr>start := True\<rparr>), s1))
      else if fst r = SND_PCM_STATE_SUSPENDED then
        ((False, l), snd (call lib (Pcm (snd_pcm_recover (- ESTRPIPE))) (snd r)))
      else if fst r = SND_PCM_STATE_DISCONNECTED then
        (let g = device_gone lib l (snd r) in ((True, fst g), snd g))
      else ((False, l), snd r))"

text \<open>
  The query of the available frames and the wait for one period of space.  The result
  is \<open>None\<close> when the iteration ends here, and the number of frames to write, already
  limited to the buffer or period size, otherwise.
\<close>

definition check_avail :: "alsa_lib \<Rightarrow> locals \<Rightarrow> alsa_state \<Rightarrow> (int option \<times> locals) \<times> alsa_state" where
  "check_avail lib l s =
     (let r = call lib (Pcm snd_pcm_avail_update) s; avail = fst r in
      if avail < 0 then
        (let r1 = call lib (Pcm (snd_pcm_recover (c_int avail))) (snd r) in
         if fst r1 < 0 \<and> fst r1 = - ENODEV
         then (let g = device_gone lib l (snd r1) in ((None, fst g), snd g))
         else ((None, l\<lparr>start := True\<rparr>), snd r1))
      else if avail < int (period_size (snd r)) then
        (if start l then
           (let r1 = (if mmap (snd r) then call lib (Pcm snd_pcm_start) (snd r) else (0, snd r)) in
            if mmap (snd r) \<and> fst r1 < 0 then
              (let r2 = call lib (Pcm (snd_pcm_recover (fst r1))) (snd r1) in
               if fst r2 < 0 then
                 (if fst r2 = - ENODEV
                  then (let g = device_gone lib l (snd r2) in ((None, fst g), snd g))
                  else ((None, l), snd (call lib (Os (usleep 10000)) (snd r2))))
               else ((None, l), snd r2))
            else ((None, l\<lparr>start := False\<rparr>), snd r1))
         else
           (let s1 = snd (call lib (Os (usleep 10000)) (snd r));
                r2 = call lib (Pcm (snd_pcm_wait 1000)) s1 in
            if fst r2 \<le> 0
            then ((None, l\<lparr>start := True\<rparr>), snd (call lib (Pcm (snd_pcm_recover (fst r2))) (snd r2)))
            else ((None, l), snd r2)))
      else
        (let limit = (if mmap (snd r) then int (buffer_size (snd r)) else int (period_size (snd r)));
             avail1 = min avail limit in
         if avail1 = 0 then ((None, l), snd (call lib (Os (usleep 10000)) (snd r)))
         else ((Some avail1, l), snd r)))"

text \<open>
  The part of the body under the lock.  When \<open>output.state\<close> is \<open>OUTPUT_OFF\<close> the device
  is closed and the thread goes to the off state.  Otherwise the delay is published and
  the frames are handed to \<open>_output_frames\<close>, which belongs to another file and is a
  parameter of the model (it calls back \<open>_write_frames\<close>); its result is the number of
  frames written.
\<close>

definition transfer :: "alsa_lib \<Rightarrow> (nat \<Rightarrow> alsa_state \<Rightarrow> nat \<times> alsa_state) \<Rightarrow> int \<Rightarrow> locals \<Rightarrow> alsa_state \<Rightarrow> locals \<times> alsa_state" where
  "transfer lib output_frames avail l s =
     (if output_state s = OUTPUT_OFF then
        (let s1 = (alsa_close lib s)\<lparr>pcmp := None\<rparr>;
             s2 = snd (call lib (Os vis_stop) s1) in
         (l\<lparr>output_off := True\<rparr>, power lib 0 s2))
      else
        (let r = call lib (Pcm snd_pcm_delay) s in
         if fst r < 0 \<and> fst r = - EPIPE then (l, snd r)
         else if fst r < 0 \<and> fst r = - EIO then (l, snd (call lib (Os (usleep 100000)) (snd r)))
         else
           (let s1 = (if fst r < 0 then snd r
                      else (let t = call lib (Os gettime_ms) ((snd r)\<lparr>device_frames := out lib (events (snd r))\<rparr>) in
                            (snd t)\<lparr>updated := fst t, frames_played_dmp := frames_played (snd t)\<rparr>));
                w = output_frames (nat avail) s1 in
            if fst w = 0 then (l, snd (call lib (Os (usleep 10000)) (snd w)))
            else (l, snd w))))"

text \<open>The body of the main loop, one iteration.\<close>

definition thread_body :: "alsa_lib \<Rightarrow> (nat \<Rightarrow> alsa_state \<Rightarrow> nat \<times> alsa_state) \<Rightarrow> locals \<Rightarrow> alsa_state \<Rightarrow> (fault + locals) \<times> alsa_state" where
  "thread_body lib output_frames l s =
     (case open_if_needed lib l s of
        (Inl f, s1) \<Rightarrow> (Inl f, s1)
      | (Inr (True, l1), s1) \<Rightarrow> (Inr l1, s1)
      | (Inr (False, l1), s1) \<Rightarrow>
          (case check_state lib l1 s1 of
             ((True, l2), s2) \<Rightarrow> (Inr l2, s2)
           | ((False, l2), s2) \<Rightarrow>
               (case check_avail lib l2 s2 of
                  ((None, l3), s3) \<Rightarrow> (Inr l3, s3)
                | ((Some avail, l3), s3) \<Rightarrow>
                    (let r = transfer lib output_frames avail l3 s3 in (Inr (fst r), snd r)))))"

text \<open>One step of the thread.\<close>

definition thread_step :: "alsa_lib \<Rightarrow> (nat \<Rightarrow> alsa_state \<Rightarrow> nat \<times> alsa_state) \<Rightarrow> locals \<Rightarrow> alsa_state \<Rightarrow> (fault + locals) \<times> alsa_state" where
  "thread_step lib output_frames l s =
     (case place l of
        At_running_test \<Rightarrow>
          (if running s
           then (Inr (l\<lparr>place := At_off_wait\<rparr>), snd (call lib (Os prctl) s))
           else (Inr (l\<lparr>place := Has_returned\<rparr>), s))
      | At_off_wait \<Rightarrow>
          (if output_off l then
             (let s1 = snd (call lib (Os (usleep 100000)) s);
                  l1 = l\<lparr>output_off := (output_state s1 = OUTPUT_OFF)\<rparr> in
              if \<not> running s1 then (Inr (l1\<lparr>place := Has_returned\<rparr>), s1)
              else (Inr l1, s1))
           else (Inr (l\<lparr>place := At_probe\<rparr>), s))
      | At_probe \<Rightarrow>
          (if probe_device l then
             (let r = pcm_probe lib (output_device s) s in
              if fst r then (Inr (l\<lparr>probe_device := False, place := At_body\<rparr>), snd r)
              else (Inr l, snd (call lib (Os (sleep 5)) (snd r))))
           else (Inr (l\<lparr>place := At_body\<rparr>), s))
      | At_body \<Rightarrow>
          (case thread_body lib output_frames l s of
             (Inl f, s1) \<Rightarrow> (Inl f, s1)
           | (Inr l1, s1) \<Rightarrow> (Inr (l1\<lparr>place := At_running_test\<rparr>), s1))
      | Has_returned \<Rightarrow> (Inr l, s))"

text \<open>
  The variables that other threads write and this thread reads: \<open>output.state\<close> and
  \<open>output.current_sample_rate\<close> (set by the protocol client) and \<open>running\<close> (cleared by
  \<open>output_close_alsa\<close>).  Their writes are placed between the steps of the thread.
\<close>

record shared =
  sh_output_state :: output_state_t
  sh_current_sample_rate :: u32
  sh_running :: bool

definition other_threads :: "shared \<Rightarrow> alsa_state \<Rightarrow> alsa_state" where
  "other_threads sh s =
     s\<lparr>output_state := sh_output_state sh,
       current_sample_rate := sh_current_sample_rate sh,
       running := sh_running sh\<rparr>"

text \<open>
  A run of the thread: before each step the other threads leave the shared variables
  at the next values of the list.
\<close>

fun thread_run :: "alsa_lib \<Rightarrow> (nat \<Rightarrow> alsa_state \<Rightarrow> nat \<times> alsa_state) \<Rightarrow> shared list \<Rightarrow> locals \<Rightarrow> alsa_state \<Rightarrow> (fault + locals) \<times> alsa_state" where
  "thread_run lib output_frames [] l s = (Inr l, s)"
| "thread_run lib output_frames (sh # shs) l s =
     (case thread_step lib output_frames l (other_threads sh s) of
        (Inl f, s1) \<Rightarrow> (Inl f, s1)
      | (Inr l1, s1) \<Rightarrow> thread_run lib output_frames shs l1 s1)"

fun is_pcm_call :: "event \<Rightarrow> bool" where
  "is_pcm_call (Pcm c) = True"
| "is_pcm_call e = False"

text \<open>An \<open>_output_frames\<close> that writes all frames through \<open>_write_frames\<close> in one call.\<close>

definition output_all_frames :: "alsa_lib \<Rightarrow> (log_level \<Rightarrow> bool) \<Rightarrow> nat \<Rightarrow> alsa_state \<Rightarrow> nat \<times> alsa_state" where
  "output_all_frames lib log_warn n s =
     (let r = write_frames lib log_warn (word_of_nat n) s in
      (if fst r \<le> 0 then 0 else nat (fst r), snd r))"

text \<open>
  An \<open>_output_frames\<close> only adds to the log of library calls, whatever else it does
  to the state.
\<close>

definition log_grows :: "(nat \<Rightarrow> alsa_state \<Rightarrow> nat \<times> alsa_state) \<Rightarrow> bool" where
  "log_grows output_frames = (\<forall>n s. prefix (events s) (events (snd (output_frames n s))))"

text \<open>Shared variables that keep the player switched off.\<close>

definition stay_off :: shared where
  "stay_off = \<lparr>sh_output_state = OUTPUT_OFF, sh_current_sample_rate = 0, sh_running = True\<rparr>"

section \<open>Facts about the volume tables and the bracket search\<close>

lemma bracket_search_cases:
  "(bracket_search tab left i lower = lower \<and> (\<forall>k. i \<le> k \<and> k < length tab \<longrightarrow> \<not> tab ! k < left))
   \<or> (\<exists>j. bracket_search tab left i lower = int j \<and> i \<le> j \<and> j < length tab \<and> tab ! j < left
          \<and> (\<forall>k. i \<le> k \<and> k < j \<longrightarrow> \<not> tab ! k < left))"
proof (induction tab left i lower rule: bracket_search.induct)
  case (1 tab left i lower)
  show ?case
  proof (cases "i < length tab")
    case False
    then show ?thesis by (simp add: bracket_search.simps [of tab left i lower])
  next
    case inb: True
    show ?thesis
    proof (cases "tab ! i < left")
      case True
      with inb have "bracket_search tab left i lower = int i"
        by (simp add: bracket_search.simps [of tab left i lower])
      with inb True show ?thesis by auto
    next
      case False
      with inb have eq: "bracket_search tab left i lower = bracket_search tab left (Suc i) lower"
        by (simp add: bracket_search.simps [of tab left i lower])
      from "1.IH" [OF inb False] show ?thesis
      proof
        assume a: "bracket_search tab left (Suc i) lower = lower \<and>
          (\<forall>k. Suc i \<le> k \<and> k < length tab \<longrightarrow> \<not> tab ! k < left)"
        have "\<forall>k. i \<le> k \<and> k < length tab \<longrightarrow> \<not> tab ! k < left"
        proof (intro allI impI)
          fix k assume "i \<le> k \<and> k < length tab"
          then show "\<not> tab ! k < left" using a False by (cases "k = i") auto
        qed
        with a eq show ?thesis by simp
      next
        assume "\<exists>j. bracket_search tab left (Suc i) lower = int j \<and> Suc i \<le> j \<and> j < length tab \<and>
          tab ! j < left \<and> (\<forall>k. Suc i \<le> k \<and> k < j \<longrightarrow> \<not> tab ! k < left)"
        then obtain j where j: "bracket_search tab left (Suc i) lower = int j" "Suc i \<le> j"
          "j < length tab" "tab ! j < left" "\<forall>k. Suc i \<le> k \<and> k < j \<longrightarrow> \<not> tab ! k < left"
          by blast
        have "\<forall>k. i \<le> k \<and> k < j \<longrightarrow> \<not> tab ! k < left"
        proof (intro allI impI)
          fix k assume "i \<le> k \<and> k < j"
          then show "\<not> tab ! k < left" using j(5) False by (cases "k = i") auto
        qed
        with j eq show ?thesis by (intro disjI2 exI [of _ j]) simp
      qed
    qed
  qed
qed

lemma length_gscale: "length gscale = 101" by (simp add: gscale_def)
lemma length_gscalenew: "length gscalenew = 101" by (simp add: gscalenew_def)
lemma gscale_first: "gscale ! 0 = 65536" by (simp add: gscale_def)
lemma gscale_last: "gscale ! 100 = 0" by (simp add: gscale_def)
lemma gscalenew_range: "\<forall>v \<in> set gscalenew. 0 \<le> v \<and> v \<le> 65536" by (simp add: gscalenew_def)
lemma gscalenew_succ: "successively (\<ge>) gscalenew" by (simp add: gscalenew_def)
lemma gscalenew_desc: "sorted_wrt (\<ge>) gscalenew"
  using gscalenew_succ by (simp add: successively_conv_sorted_wrt transp_def)
lemma gscalenew_nth_mono: "i \<le> j \<Longrightarrow> j < 101 \<Longrightarrow> gscalenew ! j \<le> gscalenew ! i"
proof (cases "i = j")
  case False
  assume "i \<le> j" "j < 101"
  with False have "i < j" "j < length gscalenew" by (simp_all add: gscalenew_def)
  from sorted_wrt_nth_less [OF gscalenew_desc this] show ?thesis .
qed simp

lemma search_gscale_found:
  assumes "0 < left"
  shows "\<exists>j. bracket_search gscale left 0 0 = int j \<and> j \<le> 100 \<and> gscale ! j < left
             \<and> (\<forall>k<j. \<not> gscale ! k < left)"
proof -
  from bracket_search_cases [of gscale left 0 0] show ?thesis
  proof
    assume "bracket_search gscale left 0 0 = 0 \<and>
      (\<forall>k. 0 \<le> k \<and> k < length gscale \<longrightarrow> \<not> gscale ! k < left)"
    then have "\<not> gscale ! 100 < left" by (simp add: length_gscale)
    with assms show ?thesis by (simp add: gscale_last)
  next
    assume "\<exists>j. bracket_search gscale left 0 0 = int j \<and> 0 \<le> j \<and> j < length gscale \<and>
      gscale ! j < left \<and> (\<forall>k. 0 \<le> k \<and> k < j \<longrightarrow> \<not> gscale ! k < left)"
    then obtain j where "bracket_search gscale left 0 0 = int j" "j < length gscale"
      "gscale ! j < left" "\<forall>k. 0 \<le> k \<and> k < j \<longrightarrow> \<not> gscale ! k < left" by blast
    then show ?thesis by (intro exI [of _ j]) (simp add: length_gscale)
  qed
qed

lemma search_gscale_in_range:
  assumes "0 < left" "left \<le> 65536"
  shows "\<exists>j. bracket_search gscale left 0 0 = int j \<and> 1 \<le> j \<and> j \<le> 100"
proof -
  from search_gscale_found [OF assms(1)] obtain j where
    j: "bracket_search gscale left 0 0 = int j" "j \<le> 100" "gscale ! j < left" by blast
  have "j \<noteq> 0"
  proof
    assume "j = 0"
    with j(3) have "65536 < left" by (simp add: gscale_first)
    with assms(2) show False by simp
  qed
  with j show ?thesis by (intro exI [of _ j]) simp
qed

lemma search_gscale_above:
  assumes "65536 < left"
  shows "bracket_search gscale left 0 0 = 0"
proof -
  from assms have "0 < left" by simp
  from search_gscale_found [OF this] obtain j where
    j: "bracket_search gscale left 0 0 = int j" "\<forall>k<j. \<not> gscale ! k < left" by blast
  have "j = 0"
  proof (rule ccontr)
    assume "j \<noteq> 0"
    then have "\<not> gscale ! 0 < left" using j(2) by simp
    with assms show False by (simp add: gscale_first)
  qed
  with j show ?thesis by simp
qed

lemma search_gscale_mono:
  assumes "0 < a" "a \<le> b"
  shows "bracket_search gscale b 0 0 \<le> bracket_search gscale a 0 0"
proof -
  from search_gscale_found [OF assms(1)] obtain ja where
    ja: "bracket_search gscale a 0 0 = int ja" "gscale ! ja < a" by blast
  from assms have "0 < b" by simp
  from search_gscale_found [OF this] obtain jb where
    jb: "bracket_search gscale b 0 0 = int jb" "\<forall>k<jb. \<not> gscale ! k < b" by blast
  have "\<not> ja < jb"
  proof
    assume "ja < jb"
    with jb(2) have "\<not> gscale ! ja < b" by simp
    with ja(2) assms(2) show False by simp
  qed
  with ja jb show ?thesis by simp
qed

lemma uint_pos: "0 < (w :: u32) \<Longrightarrow> 0 < uint w"
  by (simp add: word_less_def)

lemma mixer_commands_append: "mixer_commands (xs @ ys) = mixer_commands xs @ mixer_commands ys"
  by (induction xs rule: mixer_commands.induct) simp_all

lemma mult_div_100: "100 * (a div 100) = a \<longleftrightarrow> 100 dvd a" for a :: int
  by (metis dvd_mult_div_cancel dvd_triv_left)

lemma c_div_100_exact: "100 * c_div m 100 = m \<longleftrightarrow> 100 dvd m"
proof (cases "m < 0")
  case True
  then have "c_div m 100 = - ((- m) div 100)" by (simp add: c_div_def)
  then have "100 * c_div m 100 = m \<longleftrightarrow> 100 * ((- m) div 100) = - m" by auto
  also have "\<dots> \<longleftrightarrow> 100 dvd (- m)" by (rule mult_div_100)
  finally show ?thesis by simp
next
  case False
  then have "c_div m 100 = m div 100" by (simp add: c_div_def)
  then show ?thesis by (simp add: mult_div_100)
qed

lemma set_volume_curve:
  assumes "volume_mixer_name s = None" "linear_dB_internal s" "0 < left" "uint left \<le> 65536"
  shows "\<exists>j. bracket_search gscale (uint left) 0 0 = int j \<and> 1 \<le> j \<and> j \<le> 100 \<and>
           set_volume to_dB left right s =
             (Inr (), store_gain (word_of_int (gscalenew ! (j - 1))) (word_of_int (gscalenew ! (j - 1))) s)"
proof -
  from assms(3) have "0 < uint left" by (rule uint_pos)
  from search_gscale_in_range [OF this assms(4)] obtain j where
    j: "bracket_search gscale (uint left) 0 0 = int j" "1 \<le> j" "j \<le> 100" by blast
  then have "table_read gscalenew (int j - 1) = Some (gscalenew ! (j - 1))"
    by (simp add: table_read_def length_gscalenew nat_diff_distrib')
  with j assms show ?thesis
    by (intro exI [of _ j]) (simp add: set_volume_def)
qed

lemma gscalenew_entry:
  assumes "i < 101"
  shows "uint (word_of_int (gscalenew ! i) :: u32) = gscalenew ! i" "gscalenew ! i \<in> set gscalenew"
proof -
  from assms show m: "gscalenew ! i \<in> set gscalenew" by (simp add: length_gscalenew)
  with gscalenew_range have "0 \<le> gscalenew ! i" "gscalenew ! i \<le> 65536" by auto
  then show "uint (word_of_int (gscalenew ! i) :: u32) = gscalenew ! i"
    by (simp add: uint_word_of_int take_bit_int_eq_self)
qed

section \<open>Claims about the volume controller\<close>

text \<open>
  C4.  In curve-corrected software-gain mode (no mixer name, \<open>linear_dB_internal\<close>
  set), for every \<open>left\<close> from 1 to 65536 the call returns and the stored left and
  right gains are entries of the corrected table \<open>gscalenew\<close>; and the stored gain
  never grows when the input shrinks: for inputs \<open>a \<le> b\<close> in that range the gain
  stored for \<open>a\<close> is at most the gain stored for \<open>b\<close>.  (Taking \<open>a = b\<close> gives
  the first part for every input of the range.)
\<close>

theorem set_volume_curve_gain_in_table_and_monotone:
  assumes "volume_mixer_name s = None" "linear_dB_internal s"
    and "volume_mixer_name s' = None" "linear_dB_internal s'"
    and "0 < a" "a \<le> b" "uint b \<le> 65536"
  shows "fst (set_volume to_dB b right s) = Inr ()
       \<and> uint (gainL (snd (set_volume to_dB b right s))) \<in> set gscalenew
       \<and> uint (gainR (snd (set_volume to_dB b right s))) \<in> set gscalenew
       \<and> gainL (snd (set_volume to_dB a right' s')) \<le> gainL (snd (set_volume to_dB b right s))
       \<and> gainR (snd (set_volume to_dB a right' s')) \<le> gainR (snd (set_volume to_dB b right s))"
proof -
  from assms(5,6) have b0: "0 < b" by auto
  from assms(6,7) have a1: "uint a \<le> 65536" by (simp add: word_le_def)
  from set_volume_curve [OF assms(1,2) b0 assms(7), of to_dB right] obtain jb where
    jb: "bracket_search gscale (uint b) 0 0 = int jb" "1 \<le> jb" "jb \<le> 100"
      "set_volume to_dB b right s =
        (Inr (), store_gain (word_of_int (gscalenew ! (jb - 1))) (word_of_int (gscalenew ! (jb - 1))) s)"
    by blast
  from set_volume_curve [OF assms(3,4,5) a1, of to_dB right'] obtain ja where
    ja: "bracket_search gscale (uint a) 0 0 = int ja" "1 \<le> ja" "ja \<le> 100"
      "set_volume to_dB a right' s' =
        (Inr (), store_gain (word_of_int (gscalenew ! (ja - 1))) (word_of_int (gscalenew ! (ja - 1))) s')"
    by blast
  from assms(5) have "0 < uint a" by (rule uint_pos)
  moreover from assms(6) have "uint a \<le> uint b" by (simp add: word_le_def)
  ultimately have "bracket_search gscale (uint b) 0 0 \<le> bracket_search gscale (uint a) 0 0"
    by (rule search_gscale_mono)
  with ja(1) jb(1) have "jb \<le> ja" by simp
  with jb(2) ja(3) have idx: "jb - 1 \<le> ja - 1" "ja - 1 < 101" "jb - 1 < 101" by simp_all
  from gscalenew_nth_mono [OF idx(1,2)] have "gscalenew ! (ja - 1) \<le> gscalenew ! (jb - 1)" .
  then have le: "(word_of_int (gscalenew ! (ja - 1)) :: u32) \<le> word_of_int (gscalenew ! (jb - 1))"
    unfolding word_le_def gscalenew_entry(1) [OF idx(2)] gscalenew_entry(1) [OF idx(3)] .
  show ?thesis
    using le gscalenew_entry [OF idx(3)]
    by (simp add: ja(4) jb(4) store_gain_def)
qed

text \<open>
  The theorem at the inputs 2049 and 2050, on either side of the out-of-order pair
  2048, 2050 of \<open>gscale\<close>, from the start-up state with the curve-corrected mode
  selected.
\<close>

theorem set_volume_curve_gain_in_table_and_monotone_witness:
  "fst (set_volume (\<lambda>x. 0) 2050 7 (startup\<lparr>linear_dB_internal := True\<rparr>)) = Inr ()
   \<and> uint (gainL (snd (set_volume (\<lambda>x. 0) 2050 7 (startup\<lparr>linear_dB_internal := True\<rparr>)))) \<in> set gscalenew
   \<and> uint (gainR (snd (set_volume (\<lambda>x. 0) 2050 7 (startup\<lparr>linear_dB_internal := True\<rparr>)))) \<in> set gscalenew
   \<and> gainL (snd (set_volume (\<lambda>x. 0) 2049 9 (startup\<lparr>linear_dB_internal := True\<rparr>)))
       \<le> gainL (snd (set_volume (\<lambda>x. 0) 2050 7 (startup\<lparr>linear_dB_internal := True\<rparr>)))
   \<and> gainR (snd (set_volume (\<lambda>x. 0) 2049 9 (startup\<lparr>linear_dB_internal := True\<rparr>)))
       \<le> gainR (snd (set_volume (\<lambda>x. 0) 2050 7 (startup\<lparr>linear_dB_internal := True\<rparr>)))"
  using set_volume_curve_gain_in_table_and_monotone
    [of "startup\<lparr>linear_dB_internal := True\<rparr>" "startup\<lparr>linear_dB_internal := True\<rparr>"
        2049 2050 "\<lambda>x. 0" 7 9]
  by (simp add: startup_def)

text \<open>
  C1.  The claim asks that for \<open>left\<close> above 65536 the bracket search falls back to the
  first bracket and that every table access stays inside the 101 entries.  The code does
  not: for every \<open>left\<close> above 65536 the search stops at index 0, and both the
  curve-corrected software path (\<open>gscalenew[lower - 1]\<close>) and the linear hardware-mixer
  path (\<open>gscale[low - 1]\<close>) then read index \<open>-1\<close>.
\<close>

theorem set_volume_above_max_out_of_bounds:
  assumes "65536 < uint left"
  shows "fst (set_volume to_dB left right (s\<lparr>volume_mixer_name := None, linear_dB_internal := True\<rparr>))
           = Inl (Out_of_bounds_read (-1))
       \<and> fst (set_volume to_dB left right (s\<lparr>volume_mixer_name := Some name, mixer_linear := True\<rparr>))
           = Inl (Out_of_bounds_read (-1))"
proof -
  from assms have nz: "0 < left" by (auto simp: word_less_def)
  from assms have srch: "bracket_search gscale (uint left) 0 0 = 0" by (rule search_gscale_above)
  show ?thesis using nz srch by (simp add: set_volume_def table_read_def)
qed

text \<open>The same at \<open>left = 65537\<close>, from the start-up state.\<close>

theorem set_volume_above_max_out_of_bounds_witness:
  "fst (set_volume (\<lambda>x. 0) 65537 65537 (startup\<lparr>volume_mixer_name := None, linear_dB_internal := True\<rparr>))
           = Inl (Out_of_bounds_read (-1))
   \<and> fst (set_volume (\<lambda>x. 0) 65537 65537 (startup\<lparr>volume_mixer_name := Some ''PCM'', mixer_linear := True\<rparr>))
           = Inl (Out_of_bounds_read (-1))"
  using set_volume_above_max_out_of_bounds [of 65537 "\<lambda>x. 0" 65537 startup "''PCM''"] by simp

text \<open>
  C3, as stated, fails in two places.  In linear passthrough mode \<open>set_volume(0, 7)\<close>
  stores the right gain 7, not 0.  In both hardware-mixer modes, with a queried minimum
  of \<open>-10239\<close> (hundredths of a dB), the level commanded is \<open>-10200\<close>: the code
  divides the minimum by 100 and multiplies it by 100 again.
\<close>

theorem set_volume_zero_counterexample:
  "gainR (snd (set_volume (\<lambda>x. 0) 0 7 startup)) = 7
   \<and> mixer_commands (events (snd (set_volume (\<lambda>x. 0) 0 0
        (startup\<lparr>volume_mixer_name := Some ''PCM'', mixer_mindb := -10239\<rparr>)))) = [-10200]
   \<and> mixer_commands (events (snd (set_volume (\<lambda>x. 0) 0 0
        (startup\<lparr>volume_mixer_name := Some ''PCM'', mixer_linear := True, mixer_mindb := -10239\<rparr>)))) = [-10200]"
  by (simp add: set_volume_def startup_def store_gain_def set_mixer_def c_div_def Let_def
      MINVOL_DB_def SND_CTL_TLV_DB_GAIN_MUTE_def)

text \<open>
  C3, amended.  A call with \<open>left = 0\<close> always returns.  In curve-corrected software
  mode both stored gains are 0.  In linear passthrough mode the stored left gain is 0
  and the stored right gain is the \<open>right\<close> argument.  In both hardware-mixer modes the
  mixer is commanded once, to the queried minimum truncated towards zero to whole
  decibels, \<open>100 * (mixer_mindb / 100)\<close>, which is the queried minimum exactly when
  that is a multiple of 100.
\<close>

theorem set_volume_zero:
  "fst (set_volume to_dB 0 right s) = Inr ()
   \<and> (volume_mixer_name s = None \<and> linear_dB_internal s \<longrightarrow>
        gainL (snd (set_volume to_dB 0 right s)) = 0 \<and> gainR (snd (set_volume to_dB 0 right s)) = 0)
   \<and> (volume_mixer_name s = None \<and> \<not> linear_dB_internal s \<longrightarrow>
        gainL (snd (set_volume to_dB 0 right s)) = 0 \<and> gainR (snd (set_volume to_dB 0 right s)) = right)
   \<and> (volume_mixer_name s \<noteq> None \<longrightarrow>
        mixer_commands (events (snd (set_volume to_dB 0 right s)))
          = mixer_commands (events s) @ [100 * c_div (mixer_mindb s) 100])
   \<and> (100 * c_div (mixer_mindb s) 100 = mixer_mindb s \<longleftrightarrow> 100 dvd mixer_mindb s)"
  by (simp add: set_volume_def set_mixer_def store_gain_def Let_def mixer_commands_append
      c_div_100_exact)

text \<open>
  The amended statement in the three modes: curve-corrected, passthrough, and a mixer
  whose queried minimum is \<open>-10200\<close>.
\<close>

theorem set_volume_zero_witness:
  "gainL (snd (set_volume (\<lambda>x. 0) 0 7 (startup\<lparr>linear_dB_internal := True\<rparr>))) = 0
   \<and> gainR (snd (set_volume (\<lambda>x. 0) 0 7 (startup\<lparr>linear_dB_internal := True\<rparr>))) = 0
   \<and> gainL (snd (set_volume (\<lambda>x. 0) 0 7 startup)) = 0
   \<and> gainR (snd (set_volume (\<lambda>x. 0) 0 7 startup)) = 7
   \<and> mixer_commands (events (snd (set_volume (\<lambda>x. 0) 0 7
        (startup\<lparr>volume_mixer_name := Some ''PCM'', mixer_mindb := -10200\<rparr>)))) = [-10200]"
  using set_volume_zero [of "\<lambda>x. 0" 7 "startup\<lparr>linear_dB_internal := True\<rparr>"]
    set_volume_zero [of "\<lambda>x. 0" 7 startup]
    set_volume_zero [of "\<lambda>x. 0" 7 "startup\<lparr>volume_mixer_name := Some ''PCM'', mixer_mindb := -10200\<rparr>"]
  by (simp add: startup_def c_div_def)

text \<open>
  C9.  When a volume mixer name is configured, every call of \<open>set_volume\<close> leaves both
  gain fields at \<open>FIXED_ONE\<close>, and what the call does is: first the store of
  \<open>FIXED_ONE\<close> into both gains, then library calls only, with no other gain store;
  when the call returns, exactly one of these calls is the mixer's set-level command.
  This also holds for a call that stops at the out-of-range table read of C1: the store
  is made before the table is searched.
\<close>

theorem set_volume_mixer_unity_gain_first:
  assumes "volume_mixer_name s \<noteq> None"
  shows "gainL (snd (set_volume to_dB left right s)) = FIXED_ONE
       \<and> gainR (snd (set_volume to_dB left right s)) = FIXED_ONE
       \<and> (\<exists>calls. events (snd (set_volume to_dB left right s))
                     = events s @ Gain_store FIXED_ONE FIXED_ONE # calls
                 \<and> (\<forall>e \<in> set calls. \<not> is_gain_store e)
                 \<and> (fst (set_volume to_dB left right s) = Inr ()
                      \<longrightarrow> length (mixer_commands calls) = 1))"
  using assms
  by (auto simp: set_volume_def set_mixer_def store_gain_def Let_def split: option.splits)

text \<open>The complete event log of one call in the non-linear hardware mode.\<close>

theorem set_volume_mixer_unity_gain_first_witness:
  "gainL (snd (set_volume (\<lambda>x. -6) 32768 5 (startup\<lparr>volume_mixer_name := Some ''PCM''\<rparr>))) = FIXED_ONE
   \<and> gainR (snd (set_volume (\<lambda>x. -6) 32768 5 (startup\<lparr>volume_mixer_name := Some ''PCM''\<rparr>))) = FIXED_ONE
   \<and> events (snd (set_volume (\<lambda>x. -6) 32768 5 (startup\<lparr>volume_mixer_name := Some ''PCM''\<rparr>)))
      = [Gain_store FIXED_ONE FIXED_ONE,
         Mixer snd_mixer_handle_events,
         Mixer (snd_mixer_selem_set_playback_dB_all (-600)),
         Mixer snd_mixer_handle_events,
         Mixer (snd_mixer_selem_get_playback_dB SND_MIXER_SCHN_FRONT_LEFT),
         Mixer snd_mixer_handle_events,
         Mixer (snd_mixer_selem_get_playback_dB SND_MIXER_SCHN_FRONT_RIGHT)]"
  using set_volume_mixer_unity_gain_first [of "startup\<lparr>volume_mixer_name := Some ''PCM''\<rparr>" "\<lambda>x. -6" 32768 5]
  by (simp add: set_volume_def startup_def store_gain_def set_mixer_def Let_def
      MINVOL_DB_def SND_CTL_TLV_DB_GAIN_MUTE_def)

text \<open>
  C10.  The claim holds for \<open>left\<close> from 1 to 65536 (C4, and
  \<open>set_volume_curve_ignores_right\<close> below), but it speaks of every \<open>left > 0\<close>: for
  \<open>left\<close> above 65536 the code reads \<open>gscalenew[-1]\<close> for both channels, so no entry
  of the corrected table is stored.  This is the defect of C1.
\<close>

theorem set_volume_curve_above_max_stores_nothing:
  assumes "volume_mixer_name s = None" "linear_dB_internal s" "65536 < uint left"
  shows "set_volume to_dB left right s = (Inl (Out_of_bounds_read (-1)), s)"
proof -
  from assms(3) have nz: "0 < left" by (auto simp: word_less_def)
  from assms(3) have srch: "bracket_search gscale (uint left) 0 0 = 0" by (rule search_gscale_above)
  show ?thesis using nz srch assms(1,2) by (simp add: set_volume_def table_read_def)
qed

text \<open>The same at \<open>left = 65537\<close>, from the start-up state.\<close>

theorem set_volume_curve_above_max_stores_nothing_witness:
  "set_volume (\<lambda>x. 0) 65537 65537 (startup\<lparr>linear_dB_internal := True\<rparr>)
     = (Inl (Out_of_bounds_read (-1)), startup\<lparr>linear_dB_internal := True\<rparr>)"
  using set_volume_curve_above_max_stores_nothing [of "startup\<lparr>linear_dB_internal := True\<rparr>" 65537 "\<lambda>x. 0" 65537]
  by (simp add: startup_def)

text \<open>In curve-corrected software mode the \<open>right\<close> argument is never read.\<close>

lemma set_volume_curve_ignores_right:
  assumes "volume_mixer_name s = None" "linear_dB_internal s"
  shows "set_volume to_dB left right s = set_volume to_dB left right' s"
  using assms by (simp add: set_volume_def)

section \<open>Facts about the device session\<close>

lemma call_simps [simp]:
  "fst (call lib e s) = ret lib (events s @ [e])"
  "events (snd (call lib e s)) = events s @ [e]"
  "device (snd (call lib e s)) = device s"
  "mmap (snd (call lib e s)) = mmap s"
  "format (snd (call lib e s)) = format s"
  "pcmp (snd (call lib e s)) = pcmp s"
  by (simp_all add: call_def)

lemma is_hw_plug [simp]:
  "\<not> is_hw (''plug'' @ dev)"
  "\<not> is_hw (CHR ''p'' # CHR ''l'' # CHR ''u'' # CHR ''g'' # dev)"
  by (simp_all add: is_hw_def)

lemma open_retry_plain_buffer_requests:
  "\<not> is_hw (device s) \<Longrightarrow>
     filter is_buffer_request (events (snd (open_retry lib dev sample_rate s)))
       = filter is_buffer_request (events s)"
  by (subst open_retry.simps) (simp add: Let_def)

lemma open_retry_buffer_requests:
  "filter is_buffer_request (events (snd (open_retry lib dev sample_rate s)))
     = filter is_buffer_request (events s)"
  by (subst open_retry.simps) (simp add: Let_def open_retry_plain_buffer_requests)

lemma open_retry_succeeds:
  assumes "\<forall>h. 0 \<le> ret lib h"
  shows "fst (open_retry lib dev sample_rate s) = None"
  using assms
  by (subst open_retry.simps) (simp add: Let_def not_less [symmetric])

lemma set_access_buffer_requests:
  "filter is_buffer_request (events (snd (set_access lib s))) = filter is_buffer_request (events s)"
  by (simp add: set_access_def Let_def)

lemma set_access_succeeds:
  "\<forall>h. 0 \<le> ret lib h \<Longrightarrow> fst (set_access lib s) = None"
  by (simp add: set_access_def Let_def not_less [symmetric])

lemma try_formats_buffer_requests:
  "filter is_buffer_request (events (snd (try_formats lib fs s))) = filter is_buffer_request (events s)"
  by (induction fs arbitrary: s) (simp_all add: Let_def)

lemma try_formats_succeeds:
  "\<forall>h. 0 \<le> ret lib h \<Longrightarrow> fs \<noteq> [] \<Longrightarrow> fst (try_formats lib fs s) = None"
  by (cases fs) (simp_all add: Let_def)

lemma set_format_buffer_requests:
  "filter is_buffer_request (events (snd (set_format lib s))) = filter is_buffer_request (events s)"
proof -
  have "events (snd (set_format lib s))
          = events (snd (try_formats lib (case format s of Some f \<Rightarrow> [f] | None \<Rightarrow> fmts) s))"
    by (simp add: set_format_def split: prod.splits option.splits)
  then show ?thesis by (simp add: try_formats_buffer_requests)
qed

lemma set_format_succeeds:
  assumes "\<forall>h. 0 \<le> ret lib h"
  shows "fst (set_format lib s) = None"
proof -
  have "fst (try_formats lib (case format s of Some f \<Rightarrow> [f] | None \<Rightarrow> fmts) s) = None"
    by (rule try_formats_succeeds [OF assms]) (simp add: fmts_def split: option.splits)
  moreover obtain r s1 where
    eq: "try_formats lib (case format s of Some f \<Rightarrow> [f] | None \<Rightarrow> fmts) s = (r, s1)"
    by (cases "try_formats lib (case format s of Some f \<Rightarrow> [f] | None \<Rightarrow> fmts) s")
  ultimately have "r = None" by simp
  with eq show ?thesis by (simp add: set_format_def)
qed

lemma set_period_buffer_requests:
  "filter is_buffer_request (events (snd (set_period lib p s))) = filter is_buffer_request (events s)"
  by (simp add: set_period_def Let_def)

lemma set_period_succeeds:
  "\<forall>h. 0 \<le> ret lib h \<Longrightarrow> fst (set_period lib p s) = None"
  by (simp add: set_period_def Let_def not_less [symmetric])

lemma set_buffer_events:
  "events (snd (set_buffer lib b s)) = events s @
     [if b < 500 then Pcm (snd_pcm_hw_params_set_buffer_time_near (b * 1000))
      else Pcm (snd_pcm_hw_params_set_buffer_size_near (unat b))]"
  by (simp add: set_buffer_def Let_def)

lemma get_sizes_buffer_requests:
  "filter is_buffer_request (events (snd (get_sizes lib s))) = filter is_buffer_request (events s)"
  by (simp add: get_sizes_def Let_def)

lemma finish_open_buffer_requests:
  "filter is_buffer_request (events (snd (finish_open lib r s))) = filter is_buffer_request (events s)"
  by (simp add: finish_open_def Let_def)


lemma alsa_close_events [simp]: "events (alsa_close lib s) = events s @ [Pcm snd_pcm_close]"
  by (simp add: alsa_close_def)

lemma case_stage:
  "(case x of (Some err, s') \<Rightarrow> f err s' | (None, s') \<Rightarrow> g s')
     = (case fst x of Some err \<Rightarrow> f err (snd x) | None \<Rightarrow> g (snd x))"
  by (cases x) (simp split: option.splits)

lemmas buffer_requests_stages =
  open_retry_buffer_requests set_access_buffer_requests set_format_buffer_requests
  set_period_buffer_requests set_buffer_events get_sizes_buffer_requests
  finish_open_buffer_requests

lemma negotiate_buffer_requests_any:
  "filter is_buffer_request (events (snd (negotiate lib dev sr b p s)))
     \<in> {filter is_buffer_request (events s),
         filter is_buffer_request (events s) @
         [if b < 500 then Pcm (snd_pcm_hw_params_set_buffer_time_near (b * 1000))
          else Pcm (snd_pcm_hw_params_set_buffer_size_near (unat b))]}"
  unfolding negotiate_def case_stage
  apply (split option.split, intro conjI allI impI)
   prefer 2 apply (simp add: buffer_requests_stages)
  apply (split option.split, intro conjI allI impI)
   prefer 2 apply (simp add: buffer_requests_stages)
  apply (split option.split, intro conjI allI impI)
   prefer 2 apply (simp add: buffer_requests_stages)
  apply (simp only: Let_def)
  apply (split if_split, intro conjI allI impI)
   apply (simp add: buffer_requests_stages)
  apply (split option.split, intro conjI allI impI)
   prefer 2 apply (simp add: buffer_requests_stages)
  apply (split option.split, intro conjI allI impI)
   prefer 2 apply (simp add: buffer_requests_stages)
  apply (split option.split, intro conjI allI impI)
   prefer 2 apply (simp add: buffer_requests_stages)
  apply (simp add: buffer_requests_stages)
  done


lemma negotiate_buffer_requests_ok:
  assumes "\<forall>h. 0 \<le> ret lib h"
  shows "filter is_buffer_request (events (snd (negotiate lib dev sr b p s)))
     = filter is_buffer_request (events s) @
         [if b < 500 then Pcm (snd_pcm_hw_params_set_buffer_time_near (b * 1000))
          else Pcm (snd_pcm_hw_params_set_buffer_size_near (unat b))]"
proof -
  have nonneg: "\<not> ret lib h < 0" for h using assms by (simp add: not_less)
  have sb: "fst (set_buffer lib b s') = None" for s'
    by (simp add: set_buffer_def Let_def nonneg)
  have gs: "fst (get_sizes lib s') = None" for s'
    by (simp add: get_sizes_def Let_def nonneg)
  show ?thesis
    unfolding negotiate_def case_stage
    by (simp add: open_retry_succeeds [OF assms] set_access_succeeds [OF assms]
        set_format_succeeds [OF assms] set_period_succeeds [OF assms] sb gs nonneg
        buffer_requests_stages Let_def)
qed

lemma buffer_time_no_wrap:
  assumes "b < (500 :: u32)"
  shows "unat (b * 1000) = unat b * 1000"
proof -
  from assms have "unat b < 500" by (simp add: word_less_nat_alt)
  then have "unat b * unat (1000 :: u32) < 2 ^ 32" by simp
  then have "unat (b * 1000) = unat b * unat (1000 :: u32)"
    by (simp add: unat_word_ariths)
  then show ?thesis by simp
qed

lemma open_retry_plain_events:
  assumes "\<not> is_hw (device s)"
  shows "events (snd (open_retry lib dev sr s)) \<in>
    {events s @ [Pcm (snd_pcm_open (device s))],
     events s @ [Pcm (snd_pcm_open (device s)), Pcm snd_pcm_hw_params_any],
     events s @ [Pcm (snd_pcm_open (device s)), Pcm snd_pcm_hw_params_any,
                 Pcm (snd_pcm_hw_params_set_rate_resample True)],
     events s @ [Pcm (snd_pcm_open (device s)), Pcm snd_pcm_hw_params_any,
                 Pcm (snd_pcm_hw_params_set_rate_resample True),
                 Pcm (snd_pcm_hw_params_set_rate sr)]}"
  using assms by (subst open_retry.simps) (simp add: Let_def)

lemma open_retry_no_retry_events:
  assumes "\<not> (is_hw (device s) \<and> rate_refused lib (events s) (device s) sr)"
  shows "events (snd (open_retry lib dev sr s)) \<in>
    {events s @ [Pcm (snd_pcm_open (device s))],
     events s @ [Pcm (snd_pcm_open (device s)), Pcm snd_pcm_hw_params_any],
     events s @ [Pcm (snd_pcm_open (device s)), Pcm snd_pcm_hw_params_any,
                 Pcm (snd_pcm_hw_params_set_rate_resample (\<not> is_hw (device s)))],
     events s @ [Pcm (snd_pcm_open (device s)), Pcm snd_pcm_hw_params_any,
                 Pcm (snd_pcm_hw_params_set_rate_resample (\<not> is_hw (device s))),
                 Pcm (snd_pcm_hw_params_set_rate sr)]}"
  using assms
  by (subst open_retry.simps) (auto simp: Let_def rate_refused_def not_less)

lemma open_retry_retry_events:
  assumes "is_hw (device s)" "rate_refused lib (events s) (device s) sr"
  shows "events (snd (open_retry lib dev sr s)) \<in>
    {events s @ [Pcm (snd_pcm_open (device s)), Pcm snd_pcm_hw_params_any,
                 Pcm (snd_pcm_hw_params_set_rate_resample False),
                 Pcm (snd_pcm_hw_params_set_rate sr), Pcm snd_pcm_close,
                 Pcm (snd_pcm_open (''plug'' @ dev))],
     events s @ [Pcm (snd_pcm_open (device s)), Pcm snd_pcm_hw_params_any,
                 Pcm (snd_pcm_hw_params_set_rate_resample False),
                 Pcm (snd_pcm_hw_params_set_rate sr), Pcm snd_pcm_close,
                 Pcm (snd_pcm_open (''plug'' @ dev)), Pcm snd_pcm_hw_params_any],
     events s @ [Pcm (snd_pcm_open (device s)), Pcm snd_pcm_hw_params_any,
                 Pcm (snd_pcm_hw_params_set_rate_resample False),
                 Pcm (snd_pcm_hw_params_set_rate sr), Pcm snd_pcm_close,
                 Pcm (snd_pcm_open (''plug'' @ dev)), Pcm snd_pcm_hw_params_any,
                 Pcm (snd_pcm_hw_params_set_rate_resample True)],
     events s @ [Pcm (snd_pcm_open (device s)), Pcm snd_pcm_hw_params_any,
                 Pcm (snd_pcm_hw_params_set_rate_resample False),
                 Pcm (snd_pcm_hw_params_set_rate sr), Pcm snd_pcm_close,
                 Pcm (snd_pcm_open (''plug'' @ dev)), Pcm snd_pcm_hw_params_any,
                 Pcm (snd_pcm_hw_params_set_rate_resample True),
                 Pcm (snd_pcm_hw_params_set_rate sr)]}"
proof -
  define s' where "s' = snd (call lib (Pcm snd_pcm_close)
    ((snd (call lib (Pcm (snd_pcm_hw_params_set_rate sr))
       (snd (call lib (Pcm (snd_pcm_hw_params_set_rate_resample False))
         (snd (call lib (Pcm snd_pcm_hw_params_any)
           ((snd (call lib (Pcm (snd_pcm_open (device s))) s))
              \<lparr>pcmp := Some (nat (out lib (events s @ [Pcm (snd_pcm_open (device s))])))\<rparr>)))))))
       \<lparr>device := ''plug'' @ dev\<rparr>))"
  have step: "open_retry lib dev sr s = open_retry lib dev sr s'"
    using assms by (subst open_retry.simps) (simp add: Let_def rate_refused_def not_less [symmetric] s'_def)
  have ev: "events s' = events s @ [Pcm (snd_pcm_open (device s)), Pcm snd_pcm_hw_params_any,
                 Pcm (snd_pcm_hw_params_set_rate_resample False),
                 Pcm (snd_pcm_hw_params_set_rate sr), Pcm snd_pcm_close]"
    and dv: "device s' = ''plug'' @ dev"
    by (simp_all add: s'_def)
  have "\<not> is_hw (device s')" by (simp add: dv)
  from open_retry_plain_events [OF this, of lib dev sr] show ?thesis
    unfolding step ev dv by simp
qed


lemma open_loop_stages:
  "filter is_open_loop_call (events (snd (set_access lib s))) = filter is_open_loop_call (events s)"
  "filter is_open_loop_call (events (snd (try_formats lib fs s))) = filter is_open_loop_call (events s)"
  "filter is_open_loop_call (events (snd (set_period lib p s))) = filter is_open_loop_call (events s)"
  "filter is_open_loop_call (events (snd (set_buffer lib b s))) = filter is_open_loop_call (events s)"
  "filter is_open_loop_call (events (snd (get_sizes lib s))) = filter is_open_loop_call (events s)"
  "filter is_open_loop_call (events (snd (finish_open lib r s))) = filter is_open_loop_call (events s)"
proof -
  show "filter is_open_loop_call (events (snd (try_formats lib fs s))) = filter is_open_loop_call (events s)"
    by (induction fs arbitrary: s) (simp_all add: Let_def)
qed (simp_all add: set_access_def set_period_def set_buffer_def get_sizes_def finish_open_def Let_def)

lemma set_format_open_loop:
  "filter is_open_loop_call (events (snd (set_format lib s))) = filter is_open_loop_call (events s)"
proof -
  have "events (snd (set_format lib s))
          = events (snd (try_formats lib (case format s of Some f \<Rightarrow> [f] | None \<Rightarrow> fmts) s))"
    by (simp add: set_format_def split: prod.splits option.splits)
  then show ?thesis by (simp add: open_loop_stages)
qed

lemma negotiate_open_loop:
  "filter is_open_loop_call (events (snd (negotiate lib dev sr b p s)))
     = filter is_open_loop_call (events (snd (open_retry lib dev sr s)))"
  unfolding negotiate_def case_stage
  apply (split option.split, intro conjI allI impI)
   prefer 2 apply simp
  apply (split option.split, intro conjI allI impI)
   prefer 2 apply (simp add: open_loop_stages set_format_open_loop)
  apply (split option.split, intro conjI allI impI)
   prefer 2 apply (simp add: open_loop_stages set_format_open_loop)
  apply (simp only: Let_def)
  apply (split if_split, intro conjI allI impI)
   apply (simp add: open_loop_stages set_format_open_loop)
  apply (split option.split, intro conjI allI impI)
   prefer 2 apply (simp add: open_loop_stages set_format_open_loop)
  apply (split option.split, intro conjI allI impI)
   prefer 2 apply (simp add: open_loop_stages set_format_open_loop)
  apply (split option.split, intro conjI allI impI)
   prefer 2 apply (simp add: open_loop_stages set_format_open_loop)
  apply (simp add: open_loop_stages set_format_open_loop)
  done

section \<open>Claims about the device session\<close>

text \<open>
  C5.  The buffer requests that a call of \<open>alsa_open\<close> adds to the log are none (when
  an earlier step fails) or exactly one, and it is the documented one: for a
  configuration value below the threshold 500 a buffer-time request of the value times
  1000, in microseconds (the 32-bit product does not wrap), and for a value of 500 or
  more a buffer-size request of the value in frames.  When no library call fails and
  the device name fits, the request is made.
\<close>

theorem alsa_open_buffer_request:
  "filter is_buffer_request (events (snd (alsa_open lib dev sample_rate alsa_buffer alsa_period s)))
     \<in> {filter is_buffer_request (events s),
         filter is_buffer_request (events s) @
           [if alsa_buffer < 500
            then Pcm (snd_pcm_hw_params_set_buffer_time_near (alsa_buffer * 1000))
            else Pcm (snd_pcm_hw_params_set_buffer_size_near (unat alsa_buffer))]}
   \<and> ((\<forall>h. 0 \<le> ret lib h) \<and> length dev \<le> 123 \<longrightarrow>
        filter is_buffer_request (events (snd (alsa_open lib dev sample_rate alsa_buffer alsa_period s)))
          = filter is_buffer_request (events s) @
           [if alsa_buffer < 500
            then Pcm (snd_pcm_hw_params_set_buffer_time_near (alsa_buffer * 1000))
            else Pcm (snd_pcm_hw_params_set_buffer_size_near (unat alsa_buffer))])
   \<and> (alsa_buffer < 500 \<longrightarrow> unat (alsa_buffer * 1000) = unat alsa_buffer * 1000)"
proof (intro conjI impI)
  define s2 where "s2 = (if pcmp s \<noteq> None then alsa_close lib s else s)
                          \<lparr>rate := 0, period_size := 0, device := dev\<rparr>"
  have base: "filter is_buffer_request (events s2) = filter is_buffer_request (events s)"
    by (simp add: s2_def)
  have open_eq: "snd (alsa_open lib dev sample_rate alsa_buffer alsa_period s) =
      (if MAX_DEVICE_LEN < length dev
       then (if pcmp s \<noteq> None then alsa_close lib s else s)\<lparr>rate := 0, period_size := 0\<rparr>
       else if MAX_DEVICE_LEN - 4 - 1 < length dev then s2
       else snd (negotiate lib dev sample_rate alsa_buffer alsa_period s2))"
    by (simp add: alsa_open_def Let_def s2_def)
  show "filter is_buffer_request (events (snd (alsa_open lib dev sample_rate alsa_buffer alsa_period s)))
     \<in> {filter is_buffer_request (events s),
         filter is_buffer_request (events s) @
           [if alsa_buffer < 500
            then Pcm (snd_pcm_hw_params_set_buffer_time_near (alsa_buffer * 1000))
            else Pcm (snd_pcm_hw_params_set_buffer_size_near (unat alsa_buffer))]}"
    using negotiate_buffer_requests_any [of lib dev sample_rate alsa_buffer alsa_period s2] base
    unfolding open_eq by (auto split: if_splits)
  {
    assume ok: "(\<forall>h. 0 \<le> ret lib h) \<and> length dev \<le> 123"
    then have "\<not> MAX_DEVICE_LEN < length dev" "\<not> MAX_DEVICE_LEN - 4 - 1 < length dev"
      by (simp_all add: MAX_DEVICE_LEN_def)
    with negotiate_buffer_requests_ok [of lib dev sample_rate alsa_buffer alsa_period s2] ok base
    show "filter is_buffer_request (events (snd (alsa_open lib dev sample_rate alsa_buffer alsa_period s)))
          = filter is_buffer_request (events s) @
           [if alsa_buffer < 500
            then Pcm (snd_pcm_hw_params_set_buffer_time_near (alsa_buffer * 1000))
            else Pcm (snd_pcm_hw_params_set_buffer_size_near (unat alsa_buffer))]"
      unfolding open_eq by simp
  }
  {
    assume "alsa_buffer < 500"
    then show "unat (alsa_buffer * 1000) = unat alsa_buffer * 1000" by (rule buffer_time_no_wrap)
  }
qed

text \<open>
  The two values of the spec, 40 and 4096, with a library in which every call succeeds,
  from the start-up state.
\<close>

theorem alsa_open_buffer_request_witness:
  "filter is_buffer_request (events (snd (alsa_open lib_ok ''hw:0'' 44100 40 4 startup)))
     = [Pcm (snd_pcm_hw_params_set_buffer_time_near 40000)]
   \<and> filter is_buffer_request (events (snd (alsa_open lib_ok ''hw:0'' 44100 4096 4 startup)))
     = [Pcm (snd_pcm_hw_params_set_buffer_size_near 4096)]"
  using alsa_open_buffer_request [of lib_ok "''hw:0''" 44100 40 4 startup]
    alsa_open_buffer_request [of lib_ok "''hw:0''" 44100 4096 4 startup]
  by (simp add: lib_ok_def startup_def)

text \<open>
  C6.  Take a device name that fits (at most 123 characters), and look at the calls of
  the retry loop in the log of \<open>alsa_open\<close>, after what was logged before (\<open>pre\<close>,
  which includes the close of a device that was still open).  If the name starts with
  \<open>hw:\<close> and the library refuses the sample rate on it, these calls start with the
  attempt on the raw device without resampling, the close, and the open of the name
  prefixed with \<open>plug\<close>; whatever follows is part of one attempt on that name with
  resampling enabled, and there is no third open.  In every other case, so for every
  name that does not start with \<open>hw:\<close>, and for a \<open>hw:\<close> name whose rate is accepted
  or whose attempt fails earlier, there is one open and no retry.
\<close>

theorem alsa_open_plug_retry:
  assumes "length dev \<le> 123"
    and "pre = events (if pcmp s \<noteq> None then alsa_close lib s else s)"
    and "loop = filter is_open_loop_call
                  (events (snd (alsa_open lib dev sample_rate alsa_buffer alsa_period s)))"
  shows "(is_hw dev \<and> rate_refused lib pre dev sample_rate \<longrightarrow>
            prefix (filter is_open_loop_call pre @
                     [Pcm (snd_pcm_open dev), Pcm snd_pcm_hw_params_any,
                      Pcm (snd_pcm_hw_params_set_rate_resample False),
                      Pcm (snd_pcm_hw_params_set_rate sample_rate),
                      Pcm snd_pcm_close, Pcm (snd_pcm_open (''plug'' @ dev))]) loop
          \<and> prefix loop (filter is_open_loop_call pre @
                     [Pcm (snd_pcm_open dev), Pcm snd_pcm_hw_params_any,
                      Pcm (snd_pcm_hw_params_set_rate_resample False),
                      Pcm (snd_pcm_hw_params_set_rate sample_rate),
                      Pcm snd_pcm_close, Pcm (snd_pcm_open (''plug'' @ dev)),
                      Pcm snd_pcm_hw_params_any,
                      Pcm (snd_pcm_hw_params_set_rate_resample True),
                      Pcm (snd_pcm_hw_params_set_rate sample_rate)]))
       \<and> (\<not> (is_hw dev \<and> rate_refused lib pre dev sample_rate) \<longrightarrow>
            prefix (filter is_open_loop_call pre @ [Pcm (snd_pcm_open dev)]) loop
          \<and> prefix loop (filter is_open_loop_call pre @
                     [Pcm (snd_pcm_open dev), Pcm snd_pcm_hw_params_any,
                      Pcm (snd_pcm_hw_params_set_rate_resample (\<not> is_hw dev)),
                      Pcm (snd_pcm_hw_params_set_rate sample_rate)]))"
proof -
  define s2 where "s2 = (if pcmp s \<noteq> None then alsa_close lib s else s)
                          \<lparr>rate := 0, period_size := 0, device := dev\<rparr>"
  have ev2: "events s2 = pre" and dv2: "device s2 = dev"
    by (simp_all add: s2_def assms(2))
  from assms(1) have "snd (alsa_open lib dev sample_rate alsa_buffer alsa_period s)
      = snd (negotiate lib dev sample_rate alsa_buffer alsa_period s2)"
    by (simp add: alsa_open_def Let_def s2_def MAX_DEVICE_LEN_def)
  then have loop: "loop = filter is_open_loop_call (events (snd (open_retry lib dev sample_rate s2)))"
    by (simp add: assms(3) negotiate_open_loop)
  show ?thesis
  proof (intro conjI impI)
    assume "is_hw dev \<and> rate_refused lib pre dev sample_rate"
    then have h: "is_hw (device s2)" "rate_refused lib (events s2) (device s2) sample_rate"
      by (simp_all add: ev2 dv2)
    from open_retry_retry_events [OF h, of dev]
    show "prefix (filter is_open_loop_call pre @
                     [Pcm (snd_pcm_open dev), Pcm snd_pcm_hw_params_any,
                      Pcm (snd_pcm_hw_params_set_rate_resample False),
                      Pcm (snd_pcm_hw_params_set_rate sample_rate),
                      Pcm snd_pcm_close, Pcm (snd_pcm_open (''plug'' @ dev))]) loop"
      unfolding loop ev2 dv2 by auto
    from open_retry_retry_events [OF h, of dev]
    show "prefix loop (filter is_open_loop_call pre @
                     [Pcm (snd_pcm_open dev), Pcm snd_pcm_hw_params_any,
                      Pcm (snd_pcm_hw_params_set_rate_resample False),
                      Pcm (snd_pcm_hw_params_set_rate sample_rate),
                      Pcm snd_pcm_close, Pcm (snd_pcm_open (''plug'' @ dev)),
                      Pcm snd_pcm_hw_params_any,
                      Pcm (snd_pcm_hw_params_set_rate_resample True),
                      Pcm (snd_pcm_hw_params_set_rate sample_rate)])"
      unfolding loop ev2 dv2 by auto
  next
    assume "\<not> (is_hw dev \<and> rate_refused lib pre dev sample_rate)"
    then have h: "\<not> (is_hw (device s2) \<and> rate_refused lib (events s2) (device s2) sample_rate)"
      by (simp add: ev2 dv2)
    from open_retry_no_retry_events [OF h, of dev]
    show "prefix (filter is_open_loop_call pre @ [Pcm (snd_pcm_open dev)]) loop"
      unfolding loop ev2 dv2 by auto
    from open_retry_no_retry_events [OF h, of dev]
    show "prefix loop (filter is_open_loop_call pre @
                     [Pcm (snd_pcm_open dev), Pcm snd_pcm_hw_params_any,
                      Pcm (snd_pcm_hw_params_set_rate_resample (\<not> is_hw dev)),
                      Pcm (snd_pcm_hw_params_set_rate sample_rate)])"
      unfolding loop ev2 dv2 by auto
  qed
qed

text \<open>
  The scenario of the spec: \<open>hw:0\<close> refuses 44100 Hz, \<open>plughw:0\<close> accepts it.  The
  call returns 0 with \<open>alsa.device\<close> set to \<open>plughw:0\<close> after exactly one retry, with
  resampling enabled.  With the device \<open>default\<close> there is one attempt.
\<close>

theorem alsa_open_plug_retry_witness:
  "fst (alsa_open lib_hw_refuses_rate ''hw:0'' 44100 40 4 startup) = Inr 0
   \<and> device (snd (alsa_open lib_hw_refuses_rate ''hw:0'' 44100 40 4 startup)) = ''plughw:0''
   \<and> filter is_open_loop_call
         (events (snd (alsa_open lib_hw_refuses_rate ''hw:0'' 44100 40 4 startup)))
       = [Pcm (snd_pcm_open ''hw:0''), Pcm snd_pcm_hw_params_any,
          Pcm (snd_pcm_hw_params_set_rate_resample False),
          Pcm (snd_pcm_hw_params_set_rate 44100),
          Pcm snd_pcm_close, Pcm (snd_pcm_open ''plughw:0''),
          Pcm snd_pcm_hw_params_any,
          Pcm (snd_pcm_hw_params_set_rate_resample True),
          Pcm (snd_pcm_hw_params_set_rate 44100)]
   \<and> filter is_open_loop_call
         (events (snd (alsa_open lib_hw_refuses_rate ''default'' 44100 40 4 startup)))
       = [Pcm (snd_pcm_open ''default''), Pcm snd_pcm_hw_params_any,
          Pcm (snd_pcm_hw_params_set_rate_resample True),
          Pcm (snd_pcm_hw_params_set_rate 44100)]"
  using alsa_open_plug_retry [where dev = "''hw:0''" and pre = "[]" and s = startup
      and lib = lib_hw_refuses_rate and sample_rate = 44100 and alsa_buffer = 40
      and alsa_period = 4
      and loop = "filter is_open_loop_call
         (events (snd (alsa_open lib_hw_refuses_rate ''hw:0'' 44100 40 4 startup)))"]
    alsa_open_plug_retry [where dev = "''default''" and pre = "[]" and s = startup
      and lib = lib_hw_refuses_rate and sample_rate = 44100 and alsa_buffer = 40
      and alsa_period = 4
      and loop = "filter is_open_loop_call
         (events (snd (alsa_open lib_hw_refuses_rate ''default'' 44100 40 4 startup)))"]
  by (simp add: alsa_open_def negotiate_def open_retry.simps set_access_def set_format_def
      set_period_def set_buffer_def get_sizes_def finish_open_def fmts_def call_def Let_def
      lib_hw_refuses_rate_def startup_def is_hw_def MAX_DEVICE_LEN_def NATIVE_FORMAT_def)

section \<open>Facts about writing and initialisation\<close>

lemma write_frames_counted:
  assumes "log_warn (loglevel s)"
  shows "recover_count (snd (write_frames lib log_warn n s)) =
           (if unrecoverable lib s n
            then (if recover_count s + 1 \<ge> 10 then 0 else recover_count s + 1)
            else recover_count s)"
    and "pcmp (snd (write_frames lib log_warn n s)) =
           (if unrecoverable lib s n \<and> recover_count s + 1 \<ge> 10 then None else pcmp s)"
    and "unrecoverable lib s n \<and> recover_count s + 1 \<ge> 10 \<Longrightarrow>
           fst (write_frames lib log_warn n s) = -1
           \<and> last (events (snd (write_frames lib log_warn n s))) = Pcm snd_pcm_close"
  using assms
  by (simp_all add: write_frames_def unrecoverable_def Let_def alsa_close_def call_def)

lemma count_below_ten:
  assumes "c < (10 :: u32)"
  shows "(c + 1 \<ge> 10) = (c = 9)" and "\<not> c + 1 \<ge> 10 \<Longrightarrow> c + 1 < 10"
proof -
  from assms have u: "unat c < 10" by (simp add: word_less_nat_alt)
  then have "unat (c + 1) = unat c + 1"
    by (simp add: unat_word_ariths)
  then show "(c + 1 \<ge> 10) = (c = 9)"
    using u by (auto simp: word_le_nat_alt word_unat_eq_iff)
  show "\<not> c + 1 \<ge> 10 \<Longrightarrow> c + 1 < 10" by simp
qed

lemma write_failed:
  assumes "unrecoverable lib s n" "log_warn (loglevel s)" "\<not> recover_count s + 1 \<ge> 10"
  shows "write_frames lib log_warn n s =
    (-1, s\<lparr>recover_count := recover_count s + 1,
            events := events s @
              [Pcm (snd_pcm_writei (unat n)),
               Pcm (snd_pcm_recover (c_int (ret lib (events s @ [Pcm (snd_pcm_writei (unat n))]))))]\<rparr>)"
  using assms by (simp add: write_frames_def unrecoverable_def Let_def call_def)

lemma write_closed:
  assumes "unrecoverable lib s n" "log_warn (loglevel s)" "recover_count s + 1 \<ge> 10"
  shows "write_frames lib log_warn n s =
    (-1, s\<lparr>pcmp := None, recover_count := 0,
            events := events s @
              [Pcm (snd_pcm_writei (unat n)),
               Pcm (snd_pcm_recover (c_int (ret lib (events s @ [Pcm (snd_pcm_writei (unat n))])))),
               Pcm snd_pcm_close]\<rparr>)"
  using assms by (simp add: write_frames_def unrecoverable_def Let_def call_def alsa_close_def)

lemma write_uncounted:
  assumes "unrecoverable lib s n" "\<not> log_warn (loglevel s)" "\<not> recover_count s \<ge> 10"
  shows "write_frames lib log_warn n s =
    (-1, s\<lparr>events := events s @
              [Pcm (snd_pcm_writei (unat n)),
               Pcm (snd_pcm_recover (c_int (ret lib (events s @ [Pcm (snd_pcm_writei (unat n))]))))]\<rparr>)"
  using assms by (simp add: write_frames_def unrecoverable_def Let_def call_def)

lemma write_done:
  assumes "\<not> mmap s" "0 \<le> ret lib (events s @ [Pcm (snd_pcm_writei (unat n))])"
  shows "write_frames lib log_warn n s =
    (sint (word_of_int (ret lib (events s @ [Pcm (snd_pcm_writei (unat n))])) :: u32),
     s\<lparr>events := events s @ [Pcm (snd_pcm_writei (unat n))]\<rparr>)"
  using assms by (simp add: write_frames_def Let_def call_def not_less [symmetric])

lemma set_volume_software:
  assumes "volume_mixer_name t = None"
  shows "volume_mixer_name (snd (set_volume to_dB left right t)) = None"
    and "filter is_mixer_call (events (snd (set_volume to_dB left right t)))
           = filter is_mixer_call (events t)"
  using assms
  by (simp_all add: set_volume_def store_gain_def Let_def split: option.splits)

section \<open>Claims about initialisation\<close>

text \<open>
  C8.  When a volume mixer is named and \<open>mixer_init_alsa\<close> fails, \<open>output_init_alsa\<close>
  still runs to its end, the creation of the output thread, and leaves both
  \<open>alsa.mixer_handle\<close> and \<open>alsa.volume_mixer_name\<close> at \<open>NULL\<close>.  From any state
  without a mixer name, \<open>set_volume\<close> makes no mixer call and keeps the name absent,
  so every later call takes the software branch.
\<close>

theorem output_init_alsa_mixer_failure:
  assumes "arg_volume_mixer_name a = Some name"
    and "fst (mixer_init_alsa lib
                (case mixer_ctl (init_settings a s) of Some c \<Rightarrow> c | None \<Rightarrow> [])
                name
                (case arg_volume_mixer_index a of Some i \<Rightarrow> i | None \<Rightarrow> 0)
                (output_init_common (init_settings a s))) < 0"
  shows "volume_mixer_name (output_init_alsa lib output_init_common a s) = None
       \<and> mixer_handle (output_init_alsa lib output_init_common a s) = None
       \<and> last (events (output_init_alsa lib output_init_common a s))
            = Os (pthread_create (arg_rates0 a))
       \<and> (\<forall>t to_dB left right. volume_mixer_name t = None \<longrightarrow>
             volume_mixer_name (snd (set_volume to_dB left right t)) = None
             \<and> filter is_mixer_call (events (snd (set_volume to_dB left right t)))
                 = filter is_mixer_call (events t))"
  using assms
  by (simp add: output_init_alsa_def Let_def call_def set_volume_software)

text \<open>
  Initialisation with a library that has no mixer, and a call of \<open>set_volume\<close> after
  it (linear passthrough mode): the only event it adds is the store of the gains.
\<close>

theorem output_init_alsa_mixer_failure_witness:
  "volume_mixer_name (output_init_alsa lib_no_mixer (\<lambda>s. s) args0 startup) = None
   \<and> mixer_handle (output_init_alsa lib_no_mixer (\<lambda>s. s) args0 startup) = None
   \<and> events (output_init_alsa lib_no_mixer (\<lambda>s. s) args0 startup)
       = [Mixer snd_mixer_open, Os (pthread_create False)]
   \<and> events (snd (set_volume (\<lambda>x. 0) 32768 32768 (output_init_alsa lib_no_mixer (\<lambda>s. s) args0 startup)))
       = [Mixer snd_mixer_open, Os (pthread_create False), Gain_store 32768 32768]"
  using output_init_alsa_mixer_failure [of args0 "''PCM''" lib_no_mixer startup "\<lambda>s. s"]
  by (simp add: output_init_alsa_def mixer_init_alsa_def init_settings_def args0_def
      lib_no_mixer_def startup_def call_def Let_def set_volume_def store_gain_def)

section \<open>Facts about the output thread\<close>

lemma power_simps [simp]:
  "pcmp (power lib on s) = pcmp s"
  "gpio_active (power lib on s) = gpio_active s"
  "power_script (power lib on s) = power_script s"
  "events (power lib on s) = events s @ (if gpio_active s then [Os (relay on)] else [])
                               @ (if power_script s \<noteq> None then [Os (relay_script on)] else [])"
  by (simp_all add: power_def Let_def call_def)

lemma open_if_needed_off:
  "open_if_needed lib l s = (Inr (b, l1), s1) \<Longrightarrow> output_off l1 = output_off l"
  unfolding open_if_needed_def Let_def
  by (auto split: if_splits sum.splits)

lemma check_state_off:
  "check_state lib l s = ((b, l1), s1) \<Longrightarrow> output_off l1 = output_off l"
  unfolding check_state_def device_gone_def Let_def
  by (auto split: if_splits)

lemma check_avail_off:
  "check_avail lib l s = ((a, l1), s1) \<Longrightarrow> output_off l1 = output_off l"
  unfolding check_avail_def device_gone_def Let_def
  by (auto split: if_splits)

lemma transfer_off:
  "output_state s = OUTPUT_OFF \<Longrightarrow>
     transfer lib output_frames avail l s =
       (l\<lparr>output_off := True\<rparr>,
        power lib 0 (snd (call lib (Os vis_stop) ((alsa_close lib s)\<lparr>pcmp := None\<rparr>))))"
  by (simp add: transfer_def Let_def)

lemma transfer_on:
  "output_state s \<noteq> OUTPUT_OFF \<Longrightarrow>
     output_off (fst (transfer lib output_frames avail l s)) = output_off l"
  by (simp add: transfer_def Let_def)


lemma call_prefix [simp]:
  "prefix pre (events s) \<Longrightarrow> prefix pre (events (snd (call lib e s)))"
  by (simp add: call_def)

lemma alsa_close_prefix [simp]:
  "prefix pre (events s) \<Longrightarrow> prefix pre (events (alsa_close lib s))"
  by (simp add: alsa_close_def)

lemma power_prefix [simp]:
  "prefix pre (events s) \<Longrightarrow> prefix pre (events (power lib on s))"
  by simp

lemma open_retry_plain_prefix:
  "\<not> is_hw (device s) \<Longrightarrow> prefix pre (events s) \<Longrightarrow>
     prefix pre (events (snd (open_retry lib dev sr s)))"
  by (subst open_retry.simps) (simp add: Let_def)

lemma open_retry_prefix [simp]:
  "prefix pre (events s) \<Longrightarrow> prefix pre (events (snd (open_retry lib dev sr s)))"
  by (subst open_retry.simps) (simp add: Let_def open_retry_plain_prefix)

lemma try_formats_prefix [simp]:
  "prefix pre (events s) \<Longrightarrow> prefix pre (events (snd (try_formats lib fs s)))"
  by (induction fs arbitrary: s) (simp_all add: Let_def)

lemma set_format_prefix [simp]:
  assumes "prefix pre (events s)"
  shows "prefix pre (events (snd (set_format lib s)))"
proof -
  have "events (snd (set_format lib s))
          = events (snd (try_formats lib (case format s of Some f \<Rightarrow> [f] | None \<Rightarrow> fmts) s))"
    by (simp add: set_format_def split: prod.splits option.splits)
  with assms show ?thesis by simp
qed

lemma stage_prefix [simp]:
  "prefix pre (events s) \<Longrightarrow> prefix pre (events (snd (set_access lib s)))"
  "prefix pre (events s) \<Longrightarrow> prefix pre (events (snd (set_period lib p s)))"
  "prefix pre (events s) \<Longrightarrow> prefix pre (events (snd (set_buffer lib b s)))"
  "prefix pre (events s) \<Longrightarrow> prefix pre (events (snd (get_sizes lib s)))"
  "prefix pre (events s) \<Longrightarrow> prefix pre (events (snd (finish_open lib sr s)))"
  by (simp_all add: set_access_def set_period_def set_buffer_def get_sizes_def finish_open_def
      Let_def)

lemma negotiate_prefix [simp]:
  "prefix pre (events s) \<Longrightarrow> prefix pre (events (snd (negotiate lib dev sr b p s)))"
  unfolding negotiate_def case_stage
  apply (split option.split, intro conjI allI impI)
   prefer 2 apply simp
  apply (split option.split, intro conjI allI impI)
   prefer 2 apply simp
  apply (split option.split, intro conjI allI impI)
   prefer 2 apply simp
  apply (simp only: Let_def)
  apply (split if_split, intro conjI allI impI)
   apply simp
  apply (split option.split, intro conjI allI impI)
   prefer 2 apply simp
  apply (split option.split, intro conjI allI impI)
   prefer 2 apply simp
  apply (split option.split, intro conjI allI impI)
   prefer 2 apply simp
  apply simp
  done

lemma alsa_open_prefix [simp]:
  "prefix pre (events s) \<Longrightarrow> prefix pre (events (snd (alsa_open lib dev sr b p s)))"
  by (simp add: alsa_open_def Let_def)

lemma open_if_needed_prefix:
  "prefix pre (events s) \<Longrightarrow> prefix pre (events (snd (open_if_needed lib l s)))"
  by (simp add: open_if_needed_def Let_def split: sum.split)

lemma check_state_prefix:
  "prefix pre (events s) \<Longrightarrow> prefix pre (events (snd (check_state lib l s)))"
  by (simp add: check_state_def device_gone_def Let_def)

lemma check_avail_prefix:
  "prefix pre (events s) \<Longrightarrow> prefix pre (events (snd (check_avail lib l s)))"
  by (simp add: check_avail_def device_gone_def Let_def)


lemma power_keeps [simp]:
  "output_device (power lib on s) = output_device s"
  "reopen (power lib on s) = reopen s"
  by (simp_all add: power_def Let_def call_def)

lemma write_frames_prefix:
  "prefix pre (events s) \<Longrightarrow> prefix pre (events (snd (write_frames lib log_warn n s)))"
  by (simp add: write_frames_def Let_def)

lemma log_grows_output_all_frames:
  "log_grows (output_all_frames lib log_warn)"
  by (simp add: log_grows_def output_all_frames_def Let_def write_frames_prefix)

lemma log_grows_prefix:
  "log_grows output_frames \<Longrightarrow> prefix pre (events s) \<Longrightarrow>
     prefix pre (events (snd (output_frames n s)))"
  unfolding log_grows_def by (meson prefix_order.trans)

lemma transfer_prefix:
  "log_grows output_frames \<Longrightarrow> prefix pre (events s) \<Longrightarrow>
     prefix pre (events (snd (transfer lib output_frames avail l s)))"
  by (simp add: transfer_def Let_def log_grows_prefix)

lemma thread_body_prefix:
  assumes "log_grows output_frames"
    and "prefix pre (events (snd (open_if_needed lib l s)))"
  shows "prefix pre (events (snd (thread_body lib output_frames l s)))"
proof -
  obtain r1 s1 where o1: "open_if_needed lib l s = (r1, s1)"
    by (cases "open_if_needed lib l s")
  with assms(2) have p1: "prefix pre (events s1)" by simp
  show ?thesis
  proof (cases r1)
    case (Inl f)
    with o1 p1 show ?thesis by (simp add: thread_body_def)
  next
    case (Inr bl)
    obtain b l1 where bl: "bl = (b, l1)" by (cases bl)
    obtain b2 l2 s2 where o2: "check_state lib l1 s1 = ((b2, l2), s2)"
      by (cases "check_state lib l1 s1") auto
    from check_state_prefix [OF p1, of lib l1] o2 have p2: "prefix pre (events s2)" by simp
    obtain a l3 s3 where o3: "check_avail lib l2 s2 = ((a, l3), s3)"
      by (cases "check_avail lib l2 s2") auto
    from check_avail_prefix [OF p2, of lib l2] o3 have p3: "prefix pre (events s3)" by simp
    from transfer_prefix [OF assms(1) p3]
    have p4: "\<And>avail. prefix pre (events (snd (transfer lib output_frames avail l3 s3)))" .
    from o1 Inr bl o2 o3 p1 p2 p3 p4 show ?thesis
      by (cases b; cases b2; cases a) (simp_all add: thread_body_def Let_def)
  qed
qed

lemma open_retry_first:
  "prefix (events s @ [Pcm (snd_pcm_open (device s))])
     (events (snd (open_retry lib dev sr s)))"
  by (subst open_retry.simps) (simp add: Let_def call_def)

lemma negotiate_after_open_retry:
  "prefix pre (events (snd (open_retry lib dev sr s))) \<Longrightarrow>
     prefix pre (events (snd (negotiate lib dev sr b p s)))"
  unfolding negotiate_def case_stage
  apply (split option.split, intro conjI allI impI)
   prefer 2 apply simp
  apply (split option.split, intro conjI allI impI)
   prefer 2 apply simp
  apply (split option.split, intro conjI allI impI)
   prefer 2 apply simp
  apply (simp only: Let_def)
  apply (split if_split, intro conjI allI impI)
   apply simp
  apply (split option.split, intro conjI allI impI)
   prefer 2 apply simp
  apply (split option.split, intro conjI allI impI)
   prefer 2 apply simp
  apply (split option.split, intro conjI allI impI)
   prefer 2 apply simp
  apply simp
  done

lemma alsa_open_without_handle:
  assumes "pcmp s = None"
  shows "MAX_DEVICE_LEN - 4 - 1 < length dev \<Longrightarrow>
           fst (alsa_open lib dev sr b p s) \<noteq> Inr 0
           \<and> events (snd (alsa_open lib dev sr b p s)) = events s
           \<and> pcmp (snd (alsa_open lib dev sr b p s)) = None
           \<and> output_device (snd (alsa_open lib dev sr b p s)) = output_device s"
    and "\<not> MAX_DEVICE_LEN - 4 - 1 < length dev \<Longrightarrow>
           prefix (events s @ [Pcm (snd_pcm_open dev)]) (events (snd (alsa_open lib dev sr b p s)))"
proof -
  show "MAX_DEVICE_LEN - 4 - 1 < length dev \<Longrightarrow>
           fst (alsa_open lib dev sr b p s) \<noteq> Inr 0
           \<and> events (snd (alsa_open lib dev sr b p s)) = events s
           \<and> pcmp (snd (alsa_open lib dev sr b p s)) = None
           \<and> output_device (snd (alsa_open lib dev sr b p s)) = output_device s"
    using assms by (simp add: alsa_open_def Let_def)
  assume short: "\<not> MAX_DEVICE_LEN - 4 - 1 < length dev"
  let ?s2 = "s\<lparr>rate := 0, period_size := 0, device := dev\<rparr>"
  from short have le: "\<not> MAX_DEVICE_LEN < length dev" by simp
  from open_retry_first [of ?s2 lib dev sr]
  have "prefix (events s @ [Pcm (snd_pcm_open dev)]) (events (snd (open_retry lib dev sr ?s2)))"
    by simp
  from negotiate_after_open_retry [OF this, of b p]
  show "prefix (events s @ [Pcm (snd_pcm_open dev)]) (events (snd (alsa_open lib dev sr b p s)))"
    using assms short le by (simp add: alsa_open_def Let_def)
qed

lemma open_if_needed_without_handle:
  assumes "pcmp s = None"
  shows "MAX_DEVICE_LEN - 4 - 1 < length (output_device s) \<Longrightarrow>
           filter is_pcm_call (events (snd (open_if_needed lib l s)))
             = filter is_pcm_call (events s)
           \<and> (\<forall>l1. fst (open_if_needed lib l s) \<noteq> Inr (False, l1))"
    and "\<not> MAX_DEVICE_LEN - 4 - 1 < length (output_device s) \<Longrightarrow>
           prefix (events (power lib 1 s) @ [Pcm (snd_pcm_open (output_device s))])
             (events (snd (open_if_needed lib l s)))"
proof -
  define s1 where "s1 = power lib 1 s"
  define r1 where "r1 = (if reopen s1
     then alsa_open lib (output_device s1) (current_sample_rate s1) (output_buffer s1)
            (output_period s1) s1
     else (Inr 0, s1))"
  define r2 where "r2 = alsa_open lib (output_device (snd r1)) (current_sample_rate (snd r1))
     (output_buffer (snd r1)) (output_period (snd r1)) (snd r1)"
  have unfold: "open_if_needed lib l s =
     (case fst r1 of
        Inl f \<Rightarrow> (Inl f, snd r1)
      | Inr e1 \<Rightarrow>
          (case fst r2 of
             Inl f \<Rightarrow> (Inl f, snd r2)
           | Inr e2 \<Rightarrow>
               if e2 \<noteq> 0
               then (Inr (True, l),
                     snd (call lib (Os (sleep 5)) ((snd r2)\<lparr>error_opening := True\<rparr>)))
               else (Inr (False, l\<lparr>start := True\<rparr>), (snd r2)\<lparr>error_opening := False\<rparr>)))"
    unfolding open_if_needed_def Let_def r1_def r2_def s1_def using assms by simp
  from assms have n1: "pcmp s1 = None" and d1: "output_device s1 = output_device s"
    by (simp_all add: s1_def)
  have e1: "filter is_pcm_call (events s1) = filter is_pcm_call (events s)"
    by (simp add: s1_def)
  {
    assume long: "MAX_DEVICE_LEN - 4 - 1 < length (output_device s)"
    with d1 have long1: "MAX_DEVICE_LEN - 4 - 1 < length (output_device s1)" by simp
    have r1: "events (snd r1) = events s1 \<and> pcmp (snd r1) = None
              \<and> output_device (snd r1) = output_device s1"
      using alsa_open_without_handle(1) [OF n1 long1, of lib "current_sample_rate s1"
          "output_buffer s1" "output_period s1"] n1
      by (cases "reopen s1") (simp_all add: r1_def)
    with long1 have long2: "MAX_DEVICE_LEN - 4 - 1 < length (output_device (snd r1))"
      by simp
    from r1 have n2: "pcmp (snd r1) = None" by simp
    from alsa_open_without_handle(1) [OF n2 long2, of lib "current_sample_rate (snd r1)"
        "output_buffer (snd r1)" "output_period (snd r1)"]
    have g: "fst r2 \<noteq> Inr 0" "events (snd r2) = events (snd r1)"
      by (simp_all add: r2_def)
    from r1 e1 have pcm1: "filter is_pcm_call (events (snd r1)) = filter is_pcm_call (events s)"
      by simp
    with g(2) have pcm2: "filter is_pcm_call (events (snd r2)) = filter is_pcm_call (events s)"
      by simp
    show "filter is_pcm_call (events (snd (open_if_needed lib l s)))
             = filter is_pcm_call (events s)
           \<and> (\<forall>l1. fst (open_if_needed lib l s) \<noteq> Inr (False, l1))"
      unfolding unfold using pcm1 pcm2 g(1)
      by (simp add: call_def split: sum.split)
  }
  {
    assume short: "\<not> MAX_DEVICE_LEN - 4 - 1 < length (output_device s)"
    with d1 have short1: "\<not> MAX_DEVICE_LEN - 4 - 1 < length (output_device s1)" by simp
    let ?pre = "events s1 @ [Pcm (snd_pcm_open (output_device s1))]"
    note first = alsa_open_without_handle(2) [OF n1 short1, of lib "current_sample_rate s1"
        "output_buffer s1" "output_period s1"]
    have p1: "reopen s1 \<Longrightarrow> prefix ?pre (events (snd r1))"
      using first by (simp add: r1_def)
    have p2: "prefix ?pre (events (snd r2))"
    proof (cases "reopen s1")
      case True
      from alsa_open_prefix [OF p1 [OF True]] show ?thesis by (simp add: r2_def)
    next
      case False
      then have "r2 = alsa_open lib (output_device s1) (current_sample_rate s1)
                        (output_buffer s1) (output_period s1) s1"
        by (simp add: r2_def r1_def)
      with first show ?thesis by simp
    qed
    have p3: "prefix ?pre (events (snd r1))" if "fst r1 = Inl f" for f
      using that p1 by (cases "reopen s1") (simp_all add: r1_def)
    have "prefix ?pre (events (snd (open_if_needed lib l s)))"
      unfolding unfold using p3 p2
      by (simp split: sum.split)
    then show "prefix (events (power lib 1 s) @ [Pcm (snd_pcm_open (output_device s))])
             (events (snd (open_if_needed lib l s)))"
      by (simp add: s1_def)
  }
qed

lemma thread_body_without_handle:
  assumes "pcmp s = None" "log_grows output_frames"
  shows "filter is_pcm_call (events (snd (thread_body lib output_frames l s)))
           = filter is_pcm_call (events s)
       \<or> prefix (filter is_pcm_call (events s) @ [Pcm (snd_pcm_open (output_device s))])
           (filter is_pcm_call (events (snd (thread_body lib output_frames l s))))"
proof (cases "MAX_DEVICE_LEN - 4 - 1 < length (output_device s)")
  case True
  from open_if_needed_without_handle(1) [OF assms(1) True, of lib l]
  have a: "filter is_pcm_call (events (snd (open_if_needed lib l s)))
             = filter is_pcm_call (events s)"
    and b: "\<And>l1. fst (open_if_needed lib l s) \<noteq> Inr (False, l1)" by simp_all
  obtain r1 s1 where o1: "open_if_needed lib l s = (r1, s1)"
    by (cases "open_if_needed lib l s")
  have "snd (thread_body lib output_frames l s) = s1"
  proof (cases r1)
    case (Inl f)
    with o1 show ?thesis by (simp add: thread_body_def)
  next
    case (Inr bl)
    obtain c l1 where bl: "bl = (c, l1)" by (cases bl)
    with b [of l1] o1 Inr have c by (cases c) simp_all
    with o1 Inr bl show ?thesis by (simp add: thread_body_def)
  qed
  with a o1 show ?thesis by simp
next
  case False
  from thread_body_prefix [OF assms(2) open_if_needed_without_handle(2) [OF assms(1) False]]
  have "prefix (events (power lib 1 s) @ [Pcm (snd_pcm_open (output_device s))])
          (events (snd (thread_body lib output_frames l s)))" .
  from filter_mono_prefix [OF this, of is_pcm_call] show ?thesis by simp
qed

lemma thread_step_at_lock:
  assumes "place l = At_body"
    and "open_if_needed lib l s = (Inr (False, l1), s1)"
    and "check_state lib l1 s1 = ((False, l2), s2)"
    and "check_avail lib l2 s2 = ((Some avail, l3), s3)"
  shows "thread_step lib output_frames l s =
           (Inr ((fst (transfer lib output_frames avail l3 s3))\<lparr>place := At_running_test\<rparr>),
            snd (transfer lib output_frames avail l3 s3))"
    and "prefix (events s) (events s3)"
proof -
  show "thread_step lib output_frames l s =
           (Inr ((fst (transfer lib output_frames avail l3 s3))\<lparr>place := At_running_test\<rparr>),
            snd (transfer lib output_frames avail l3 s3))"
    using assms by (simp add: thread_step_def thread_body_def Let_def)
  from open_if_needed_prefix [of "events s" s lib l] assms(2)
  have "prefix (events s) (events s1)" by simp
  from check_state_prefix [OF this, of lib l1] assms(3)
  have "prefix (events s) (events s2)" by simp
  from check_avail_prefix [OF this, of lib l2] assms(4)
  show "prefix (events s) (events s3)" by simp
qed

lemma off_wait_step:
  assumes "output_off l" "place l \<in> {At_running_test, At_off_wait, Has_returned}"
    and "output_state s = OUTPUT_OFF"
  shows "\<exists>l'. fst (thread_step lib output_frames l s) = Inr l' \<and> output_off l'
               \<and> place l' \<in> {At_running_test, At_off_wait, Has_returned}"
    and "pcmp (snd (thread_step lib output_frames l s)) = pcmp s"
    and "filter is_pcm_call (events (snd (thread_step lib output_frames l s)))
           = filter is_pcm_call (events s)"
  using assms by (auto simp: thread_step_def Let_def call_def)

lemma off_wait_run:
  assumes "\<forall>sh \<in> set shs. sh_output_state sh = OUTPUT_OFF"
    and "output_off l" "place l \<in> {At_running_test, At_off_wait, Has_returned}"
  shows "(\<exists>l'. fst (thread_run lib output_frames shs l s) = Inr l' \<and> output_off l'
               \<and> place l' \<in> {At_running_test, At_off_wait, Has_returned})
       \<and> pcmp (snd (thread_run lib output_frames shs l s)) = pcmp s
       \<and> filter is_pcm_call (events (snd (thread_run lib output_frames shs l s)))
           = filter is_pcm_call (events s)"
  using assms
proof (induction shs arbitrary: l s)
  case Nil
  then show ?case by simp
next
  case (Cons sh shs)
  let ?s = "other_threads sh s"
  from Cons.prems(1) have st: "output_state ?s = OUTPUT_OFF" by (simp add: other_threads_def)
  from off_wait_step(1) [OF Cons.prems(2,3) st, of lib output_frames]
  obtain l1 where l1: "fst (thread_step lib output_frames l ?s) = Inr l1" "output_off l1"
    "place l1 \<in> {At_running_test, At_off_wait, Has_returned}" by blast
  define s1 where "s1 = snd (thread_step lib output_frames l ?s)"
  from l1(1) have step: "thread_step lib output_frames l ?s = (Inr l1, s1)"
    by (simp add: s1_def prod_eq_iff)
  from off_wait_step(2,3) [OF Cons.prems(2,3) st, of lib output_frames]
  have keep: "pcmp s1 = pcmp s" "filter is_pcm_call (events s1) = filter is_pcm_call (events s)"
    by (simp_all add: s1_def other_threads_def)
  from Cons.prems(1) have "\<forall>sh \<in> set shs. sh_output_state sh = OUTPUT_OFF" by simp
  from Cons.IH [OF this l1(2,3), of s1] show ?case
    by (simp add: step keep)
qed

section \<open>Claims about the write callback and the output thread\<close>

text \<open>
  C2 as stated does not hold.  In the first run the log level is \<open>lWARN\<close> and the
  device is open: nine writes fail without recovery and leave the device open, the
  tenth write succeeds and returns 64 frames, and the eleventh call, a single
  unrecoverable error after a successful write, closes the device.  So the errors that
  are counted need not be consecutive.  In the second run the log level is \<open>lERROR\<close>,
  at which \<open>LOG_WARN\<close> does not evaluate its arguments: ten consecutive writes fail
  without recovery, the count stays at 0 and the device stays open.
\<close>

theorem write_frames_tenth_error_counterexample:
  "pcmp (write_all lib_tenth_write_ok log_warn_from_lWARN [64, 64, 64, 64, 64, 64, 64, 64, 64]
           (startup\<lparr>loglevel := lWARN, pcmp := Some 1\<rparr>)) = Some 1
   \<and> fst (write_frames lib_tenth_write_ok log_warn_from_lWARN 64
           (write_all lib_tenth_write_ok log_warn_from_lWARN [64, 64, 64, 64, 64, 64, 64, 64, 64]
              (startup\<lparr>loglevel := lWARN, pcmp := Some 1\<rparr>))) = 64
   \<and> pcmp (write_all lib_tenth_write_ok log_warn_from_lWARN
             [64, 64, 64, 64, 64, 64, 64, 64, 64, 64]
             (startup\<lparr>loglevel := lWARN, pcmp := Some 1\<rparr>)) = Some 1
   \<and> pcmp (write_all lib_tenth_write_ok log_warn_from_lWARN
             [64, 64, 64, 64, 64, 64, 64, 64, 64, 64, 64]
             (startup\<lparr>loglevel := lWARN, pcmp := Some 1\<rparr>)) = None
   \<and> pcmp (write_all lib_fails log_warn_from_lWARN [64, 64, 64, 64, 64, 64, 64, 64, 64, 64]
             (startup\<lparr>loglevel := lERROR, pcmp := Some 1\<rparr>)) = Some 1
   \<and> recover_count (write_all lib_fails log_warn_from_lWARN
             [64, 64, 64, 64, 64, 64, 64, 64, 64, 64]
             (startup\<lparr>loglevel := lERROR, pcmp := Some 1\<rparr>)) = 0"
  by (simp add: write_failed write_done write_closed write_uncounted unrecoverable_def
      lib_tenth_write_ok_def lib_fails_def log_warn_from_lWARN_def startup_def word_le_nat_alt)

text \<open>
  C2, amended.  Let the log level be one at which \<open>LOG_WARN\<close> evaluates its arguments,
  and let fewer than ten errors be counted so far (\<open>recover_count\<close> starts at 0 and, by
  the first conjunct, stays below 10).  An unrecoverable write error is a call of
  \<open>_write_frames\<close> whose \<open>snd_pcm_writei\<close> fails and whose \<open>snd_pcm_recover\<close>
  fails as well.  The call closes the session, with \<open>pcmp\<close> at
  \<open>NULL\<close> afterwards, exactly when it is the tenth unrecoverable error counted since
  the program started or since the last such close; it then returns \<open>-1\<close> with
  \<open>snd_pcm_close\<close> as its last call and the count back at 0.  Any other unrecoverable
  error adds one to the count, and every other call, a successful write included,
  leaves the count and the handle as they are.

  With \<open>pcmp\<close> at \<open>NULL\<close>, an iteration of the main loop of the output thread, from
  any state \<open>t\<close> and with any locals, makes no PCM call at all (the device name is too
  long to be opened) or has \<open>snd_pcm_open\<close> of \<open>output.device\<close> as its first PCM
  call: a fresh open comes before any write.
\<close>

theorem write_frames_closes_at_tenth_error:
  assumes "log_warn (loglevel s)" "recover_count s < 10"
  shows "recover_count (snd (write_frames lib log_warn n s)) < 10
   \<and> pcmp (snd (write_frames lib log_warn n s)) =
        (if unrecoverable lib s n \<and> recover_count s = 9 then None else pcmp s)
   \<and> recover_count (snd (write_frames lib log_warn n s)) =
        (if unrecoverable lib s n
         then (if recover_count s = 9 then 0 else recover_count s + 1)
         else recover_count s)
   \<and> (unrecoverable lib s n \<and> recover_count s = 9 \<longrightarrow>
        fst (write_frames lib log_warn n s) = -1
        \<and> last (events (snd (write_frames lib log_warn n s))) = Pcm snd_pcm_close)
   \<and> (pcmp t = None \<and> log_grows output_frames \<longrightarrow>
        filter is_pcm_call (events (snd (thread_body lib output_frames l t)))
          = filter is_pcm_call (events t)
        \<or> prefix (filter is_pcm_call (events t) @ [Pcm (snd_pcm_open (output_device t))])
            (filter is_pcm_call (events (snd (thread_body lib output_frames l t)))))"
proof -
  note c = count_below_ten [OF assms(2)]
  note w = write_frames_counted [where log_warn = log_warn and s = s, OF assms(1)]
  have a: "recover_count (snd (write_frames lib log_warn n s)) < 10"
    using assms(2) c by (simp add: w(1))
  have b: "unrecoverable lib s n \<and> recover_count s = 9 \<longrightarrow>
        fst (write_frames lib log_warn n s) = -1
        \<and> last (events (snd (write_frames lib log_warn n s))) = Pcm snd_pcm_close"
    using w(3) [of lib n] c(1) by simp
  have d: "pcmp t = None \<and> log_grows output_frames \<longrightarrow>
        filter is_pcm_call (events (snd (thread_body lib output_frames l t)))
          = filter is_pcm_call (events t)
        \<or> prefix (filter is_pcm_call (events t) @ [Pcm (snd_pcm_open (output_device t))])
            (filter is_pcm_call (events (snd (thread_body lib output_frames l t))))"
    using thread_body_without_handle [of t output_frames lib l] by blast
  from a b d show ?thesis
    by (simp add: w(1,2) c(1))
qed

text \<open>
  At log level \<open>lWARN\<close> with an open device and a library in which every call fails:
  the tenth counted error closes the device, the fourth does not.  In the state after
  the close, the next iteration of the thread tries to open the device again, fails,
  and makes no other PCM call.
\<close>

theorem write_frames_closes_at_tenth_error_witness:
  "write_frames lib_fails log_warn_from_lWARN 64
      (startup\<lparr>loglevel := lWARN, pcmp := Some 1, recover_count := 9\<rparr>)
     = (-1, startup\<lparr>loglevel := lWARN, pcmp := None, recover_count := 0,
              events := [Pcm (snd_pcm_writei 64), Pcm (snd_pcm_recover (-32)),
                         Pcm snd_pcm_close]\<rparr>)
   \<and> recover_count (snd (write_frames lib_fails log_warn_from_lWARN 64
        (startup\<lparr>loglevel := lWARN, pcmp := Some 1, recover_count := 3\<rparr>))) = 4
   \<and> pcmp (snd (write_frames lib_fails log_warn_from_lWARN 64
        (startup\<lparr>loglevel := lWARN, pcmp := Some 1, recover_count := 3\<rparr>))) = Some 1
   \<and> log_grows (output_all_frames lib_fails log_warn_from_lWARN)
   \<and> events (snd (thread_body lib_fails (output_all_frames lib_fails log_warn_from_lWARN)
        \<lparr>start = False, output_off = False, probe_device = False, place = At_body\<rparr>
        (startup\<lparr>loglevel := lWARN, pcmp := None, recover_count := 0,
           events := [Pcm (snd_pcm_writei 64), Pcm (snd_pcm_recover (-32)),
                      Pcm snd_pcm_close]\<rparr>)))
       = [Pcm (snd_pcm_writei 64), Pcm (snd_pcm_recover (-32)), Pcm snd_pcm_close,
          Pcm (snd_pcm_open []), Os (sleep 5)]"
  using write_frames_closes_at_tenth_error
      [where s = "startup\<lparr>loglevel := lWARN, pcmp := Some 1, recover_count := 9\<rparr>"
         and log_warn = log_warn_from_lWARN and lib = lib_fails and n = 64
         and output_frames = "output_all_frames lib_fails log_warn_from_lWARN"
         and l = "\<lparr>start = False, output_off = False, probe_device = False, place = At_body\<rparr>"
         and t = "startup\<lparr>loglevel := lWARN, pcmp := None, recover_count := 0,
           events := [Pcm (snd_pcm_writei 64), Pcm (snd_pcm_recover (-32)),
                      Pcm snd_pcm_close]\<rparr>"]
    write_frames_closes_at_tenth_error
      [where s = "startup\<lparr>loglevel := lWARN, pcmp := Some 1, recover_count := 3\<rparr>"
         and log_warn = log_warn_from_lWARN and lib = lib_fails and n = 64
         and output_frames = "output_all_frames lib_fails log_warn_from_lWARN"
         and l = "\<lparr>start = False, output_off = False, probe_device = False, place = At_body\<rparr>"
         and t = "startup\<lparr>loglevel := lWARN, pcmp := None, recover_count := 0,
           events := [Pcm (snd_pcm_writei 64), Pcm (snd_pcm_recover (-32)),
                      Pcm snd_pcm_close]\<rparr>"]
    log_grows_output_all_frames [of lib_fails log_warn_from_lWARN]
  by (simp add: write_frames_def unrecoverable_def alsa_close_def call_def Let_def
      lib_fails_def log_warn_from_lWARN_def startup_def word_le_nat_alt c_int_def
      thread_body_def open_if_needed_def power_def alsa_open_def negotiate_def
      open_retry.simps MAX_DEVICE_LEN_def is_hw_def)

text \<open>
  C7.  Take an iteration of the main loop that arrives at the test of \<open>output.state\<close>
  under the lock: the first three blocks of the body hand on (the device is open or
  has been opened, its state lets the iteration go on, and there is room for frames).
  Let the thread read \<open>OUTPUT_OFF\<close> there.  Then within this step the device is
  closed: the log of the step ends with \<open>snd_pcm_close\<close>, \<open>vis_stop\<close> and the calls
  that switch the amplifier off, \<open>pcmp\<close> is \<open>NULL\<close> afterwards, and the thread is
  back at the test of its main loop with \<open>output_off\<close> set.  From there on, over any
  number of steps, as long as the other threads leave \<open>output.state\<close> at
  \<open>OUTPUT_OFF\<close>, the thread stays in the off state (at the loop test, in the polling
  loop, or returned when \<open>running\<close> was cleared), \<open>pcmp\<close> stays \<open>NULL\<close>, and the log
  gets no further PCM call.
\<close>

theorem thread_disable:
  assumes "place l = At_body"
    and "open_if_needed lib l s = (Inr (False, l1), s1)"
    and "check_state lib l1 s1 = ((False, l2), s2)"
    and "check_avail lib l2 s2 = ((Some avail, l3), s3)"
    and "output_state s3 = OUTPUT_OFF"
    and "thread_step lib output_frames l s = (r, s')"
    and "\<forall>sh \<in> set later. sh_output_state sh = OUTPUT_OFF"
  shows "r = Inr (l3\<lparr>output_off := True, place := At_running_test\<rparr>)
       \<and> pcmp s' = None
       \<and> prefix (events s) (events s3)
       \<and> events s' = events s3 @ [Pcm snd_pcm_close, Os vis_stop]
              @ (if gpio_active s3 then [Os (relay 0)] else [])
              @ (if power_script s3 \<noteq> None then [Os (relay_script 0)] else [])
       \<and> (\<exists>l''. fst (thread_run lib output_frames later
                        (l3\<lparr>output_off := True, place := At_running_test\<rparr>) s') = Inr l''
               \<and> output_off l''
               \<and> place l'' \<in> {At_running_test, At_off_wait, Has_returned})
       \<and> pcmp (snd (thread_run lib output_frames later
                       (l3\<lparr>output_off := True, place := At_running_test\<rparr>) s')) = None
       \<and> filter is_pcm_call (events (snd (thread_run lib output_frames later
                       (l3\<lparr>output_off := True, place := At_running_test\<rparr>) s')))
           = filter is_pcm_call (events s')"
proof -
  let ?l = "l3\<lparr>output_off := True, place := At_running_test\<rparr>"
  from thread_step_at_lock(1) [OF assms(1-4), of output_frames] assms(6)
    transfer_off [OF assms(5), of lib output_frames avail l3]
  have r: "r = Inr ?l"
    and s': "s' = power lib 0 (snd (call lib (Os vis_stop) ((alsa_close lib s3)\<lparr>pcmp := None\<rparr>)))"
    by simp_all
  have a: "pcmp s' = None" by (simp add: s' call_def)
  have b: "events s' = events s3 @ [Pcm snd_pcm_close, Os vis_stop]
              @ (if gpio_active s3 then [Os (relay 0)] else [])
              @ (if power_script s3 \<noteq> None then [Os (relay_script 0)] else [])"
    by (simp add: s' call_def alsa_close_def)
  have "output_off ?l" "place ?l \<in> {At_running_test, At_off_wait, Has_returned}" by simp_all
  from off_wait_run [OF assms(7) this, of lib output_frames s'] a b r
    thread_step_at_lock(2) [OF assms(1-4)]
  show ?thesis by simp
qed

text \<open>
  An iteration with an open device, one period of space and \<open>output.state\<close> at
  \<open>OUTPUT_OFF\<close>, with the GPIO relay active, and three more steps with the player
  still off: the loop test and two rounds of polling.
\<close>

theorem thread_disable_witness:
  "thread_step lib_ok (output_all_frames lib_ok log_warn_from_lWARN)
      \<lparr>start = False, output_off = False, probe_device = False, place = At_body\<rparr>
      (startup\<lparr>pcmp := Some 1, output_state := OUTPUT_OFF, period_size := 1, gpio_active := True\<rparr>)
    = (Inr \<lparr>start = False, output_off = True, probe_device = False, place = At_running_test\<rparr>,
       startup\<lparr>pcmp := None, output_state := OUTPUT_OFF, period_size := 1, gpio_active := True,
         events := [Pcm snd_pcm_state, Pcm snd_pcm_avail_update, Pcm snd_pcm_close,
                    Os vis_stop, Os (relay 0)]\<rparr>)
   \<and> pcmp (snd (thread_run lib_ok (output_all_frames lib_ok log_warn_from_lWARN)
        [stay_off, stay_off, stay_off]
        \<lparr>start = False, output_off = True, probe_device = False, place = At_running_test\<rparr>
        (startup\<lparr>pcmp := None, output_state := OUTPUT_OFF, period_size := 1, gpio_active := True,
           events := [Pcm snd_pcm_state, Pcm snd_pcm_avail_update, Pcm snd_pcm_close,
                      Os vis_stop, Os (relay 0)]\<rparr>))) = None
   \<and> events (snd (thread_run lib_ok (output_all_frames lib_ok log_warn_from_lWARN)
        [stay_off, stay_off, stay_off]
        \<lparr>start = False, output_off = True, probe_device = False, place = At_running_test\<rparr>
        (startup\<lparr>pcmp := None, output_state := OUTPUT_OFF, period_size := 1, gpio_active := True,
           events := [Pcm snd_pcm_state, Pcm snd_pcm_avail_update, Pcm snd_pcm_close,
                      Os vis_stop, Os (relay 0)]\<rparr>)))
       = [Pcm snd_pcm_state, Pcm snd_pcm_avail_update, Pcm snd_pcm_close, Os vis_stop,
          Os (relay 0), Os prctl, Os (usleep 100000), Os (usleep 100000)]"
  using thread_disable
    [where l = "\<lparr>start = False, output_off = False, probe_device = False, place = At_body\<rparr>"
       and lib = lib_ok and output_frames = "output_all_frames lib_ok log_warn_from_lWARN"
       and s = "startup\<lparr>pcmp := Some 1, output_state := OUTPUT_OFF, period_size := 1,
                  gpio_active := True\<rparr>"
       and ?l1.0 = "\<lparr>start = False, output_off = False, probe_device = False, place = At_body\<rparr>"
       and ?s1.0 = "startup\<lparr>pcmp := Some 1, output_state := OUTPUT_OFF, period_size := 1,
                  gpio_active := True\<rparr>"
       and ?l2.0 = "\<lparr>start = False, output_off = False, probe_device = False, place = At_body\<rparr>"
       and ?s2.0 = "startup\<lparr>pcmp := Some 1, output_state := OUTPUT_OFF, period_size := 1,
                  gpio_active := True, events := [Pcm snd_pcm_state]\<rparr>"
       and avail = 1
       and ?l3.0 = "\<lparr>start = False, output_off = False, probe_device = False, place = At_body\<rparr>"
       and ?s3.0 = "startup\<lparr>pcmp := Some 1, output_state := OUTPUT_OFF, period_size := 1,
                  gpio_active := True, events := [Pcm snd_pcm_state, Pcm snd_pcm_avail_update]\<rparr>"
       and r = "Inr \<lparr>start = False, output_off = True, probe_device = False,
                  place = At_running_test\<rparr>"
       and s' = "startup\<lparr>pcmp := None, output_state := OUTPUT_OFF, period_size := 1,
                  gpio_active := True,
                  events := [Pcm snd_pcm_state, Pcm snd_pcm_avail_update, Pcm snd_pcm_close,
                             Os vis_stop, Os (relay 0)]\<rparr>"
       and later = "[stay_off, stay_off, stay_off]"]
  by (simp add: thread_step_def thread_body_def open_if_needed_def check_state_def
      check_avail_def transfer_def power_def alsa_close_def call_def Let_def lib_ok_def
      startup_def stay_off_def other_threads_def SND_PCM_STATE_XRUN_def
      SND_PCM_STATE_SUSPENDED_def SND_PCM_STATE_DISCONNECTED_def)

end
